theory Spec2Isabelle
  imports Complex_Main "HOL-Library.Multiset"
begin

section \<open>Numbers and arrays\<close>

text \<open>
  The sampler computes with C++ \<^verbatim>\<open>double\<close>. For \<^verbatim>\<open>NestedSampler.cpp\<close> the embedding reads
  every double as a real number: \<^verbatim>\<open>exp\<close>, \<^verbatim>\<open>log\<close>, \<^verbatim>\<open>sqrt\<close> and \<^verbatim>\<open>fabs\<close> are the real
  functions \<open>exp\<close>, \<open>ln\<close>, \<open>sqrt\<close> and \<open>abs\<close>, so rounding, overflow to infinity and NaN are
  outside that part of the model. (\<^verbatim>\<open>Results.cpp\<close> is treated otherwise, see its section.)
  Where the source takes \<^verbatim>\<open>log\<close> of a value that may be zero or negative
  (\<^verbatim>\<open>logRemainingPriorMass\<close>), the theorems below only speak about the case in which the
  argument is positive.

  An Eigen \<^verbatim>\<open>ArrayXd\<close> is a list of reals; an \<^verbatim>\<open>ArrayXXd\<close> (column-major, one point per
  column) is the list of its columns. Sizes and indices (\<^verbatim>\<open>Nobjects\<close>, \<^verbatim>\<open>Ndimensions\<close>,
  \<^verbatim>\<open>Niterations\<close>) are C++ \<^verbatim>\<open>int\<close>s that the code only ever uses as non-negative counts;
  they are natural numbers here and the 32-bit range is not modelled. The user-supplied
  \<^verbatim>\<open>int\<close> parameters of \<^verbatim>\<open>run\<close>, which may be zero or negative, stay integers.
\<close>

type_synonym ArrayXd = "real list"
type_synonym ArrayXXd = "real list list"

definition lowest :: real where
  \<comment> \<open>\<^verbatim>\<open>numeric_limits<double>::lowest()\<close>, the most negative finite double\<close>
  "lowest = - ((2 - 1 / 2 ^ 52) * 2 ^ 1023)"

definition logExpSum :: "real \<Rightarrow> real \<Rightarrow> real" where
  \<comment> \<open>Modelled from the spec: \<^verbatim>\<open>Functions::logExpSum\<close> is not among the sources. The spec
      calls it the log-sum-exp of its two arguments, a generic math utility.\<close>
  "logExpSum x y = ln (exp x + exp y)"

definition crem :: "int \<Rightarrow> int \<Rightarrow> int" where
  \<comment> \<open>the C++ operator \<^verbatim>\<open>%\<close> for a non-zero divisor: the remainder of the division that
      truncates towards zero\<close>
  "crem a b = sgn a * (\<bar>a\<bar> mod \<bar>b\<bar>)"

definition conservativeResize :: "nat \<Rightarrow> ArrayXd \<Rightarrow> ArrayXd" where
  \<comment> \<open>\<^verbatim>\<open>ArrayXd::conservativeResize(n)\<close>: the old entries are kept; new entries are
      uninitialised in Eigen and read as 0 here (the code writes each before reading it)\<close>
  "conservativeResize n v = take n v @ replicate (n - length v) 0"

definition conservativeResizeXX :: "nat \<Rightarrow> nat \<Rightarrow> ArrayXXd \<Rightarrow> ArrayXXd" where
  \<comment> \<open>\<^verbatim>\<open>ArrayXXd::conservativeResize(rows, cols)\<close> on the list of columns. The code
      always passes \<^verbatim>\<open>Ndimensions\<close>, the row count the array already has once it has a
      column, so the columns that are kept are not touched.\<close>
  "conservativeResizeXX r c m = take c m @ replicate (c - length m) (replicate r 0)"

definition minCoeff :: "ArrayXd \<Rightarrow> real \<times> nat" where
  \<comment> \<open>\<^verbatim>\<open>minCoeff(&index)\<close> on a non-empty array: Eigen's visitor starts at entry 0 and
      moves on only to a strictly smaller entry, so the index is the first minimum\<close>
  "minCoeff v = fold (\<lambda>i (m, k). if v ! i < m then (v ! i, i) else (m, k))
                     [1..<length v] (v ! 0, 0)"

section \<open>The sampler object and its collaborators\<close>

datatype error =
    EmptyArray    \<comment> \<open>Eigen assertion: \<^verbatim>\<open>minCoeff\<close> of an array of size 0\<close>
  | DivisionByZero  \<comment> \<open>\<^verbatim>\<open>Niterations % NiterationsWithSameClustering\<close> with divisor 0\<close>
  | AssertionFailed \<comment> \<open>the \<^verbatim>\<open>assert\<close> of \<^verbatim>\<open>Results::parameterEstimation\<close>\<close>
  | IndexOutOfRange \<comment> \<open>Eigen assertion: an array read past its end\<close>

datatype diagnostic =
    Progress nat int nat real real real real
      \<comment> \<open>the line \<^verbatim>\<open>Nit: .. Ncl: .. Nlive: .. CPM: .. Ratio: .. log(E): .. IG: ..\<close>\<close>
  | CantFindPoint       \<comment> \<open>\<^verbatim>\<open>Can't find point with a better Likelihood\<close>\<close>
  | StoppingPrematurely \<comment> \<open>\<^verbatim>\<open>Stopping the nested sampling loop prematurely.\<close>\<close>
  | EmptyLine           \<comment> \<open>\<^verbatim>\<open>cerr << endl\<close>\<close>
  | TotalTime real string  \<comment> \<open>\<^verbatim>\<open>Total Computational Time: ..\<close> with its unit\<close>

text \<open>
  The members of \<^verbatim>\<open>NestedSampler\<close>, followed by the local variables of \<^verbatim>\<open>run\<close> that live
  across loop iterations. \<open>world\<close> is everything outside the object that its collaborators
  read and change (the random engine, the clock); \<open>cerr\<close> is the diagnostic stream.
  Members and locals that the source leaves uninitialised start at 0 or the empty array.
\<close>

record 'w sampler =
  printOnTheScreen :: bool
  Ndimensions :: nat
  Nobjects :: nat
  nestedSample :: ArrayXXd
  logLikelihood :: ArrayXd
  posteriorSample :: ArrayXXd
  logLikelihoodOfPosteriorSample :: ArrayXd
  logWeightOfPosteriorSample :: ArrayXd
  logCumulatedPriorMass :: real
  logRemainingPriorMass :: real
  worstLiveLogLikelihood :: real
  logMeanLikelihoodOfLivePoints :: real
  Niterations :: nat
  informationGain :: real
  logEvidence :: real
  logEvidenceError :: real
  computationalTime :: real
  startTime :: nat
  logMeanLiveEvidence :: real
  ratioOfRemainderToActualEvidence :: real
  logWidthInPriorMass :: real
  Nclusters :: int
  clusterIndices :: "int list"
  clusterSizes :: "int list"
  nestedSamplingShouldContinue :: bool
  world :: 'w
  cerr :: "diagnostic list"

text \<open>
  The collaborators, whose code is outside \<^verbatim>\<open>NestedSampler.cpp\<close>, are parameters:
  \<^item> \<open>priors\<close>: for each \<^verbatim>\<open>Prior\<close>, \<^verbatim>\<open>getNdimensions()\<close> and \<^verbatim>\<open>draw\<close>, which fills an array
    of that many rows and \<open>Nobjects\<close> columns (given as the entry at row and column);
  \<^item> \<open>logValue\<close>: \<^verbatim>\<open>Likelihood::logValue\<close>;
  \<^item> \<open>cluster\<close>: \<^verbatim>\<open>Clusterer::cluster(sample, clusterIndices, clusterSizes, print)\<close>,
    returning \<open>Nclusters\<close> and the two output vectors;
  \<^item> \<open>drawWithConstraint\<close>: the pure virtual member of the same name, which sees the
    object, takes the arguments of the call and returns the flag, the drawn point and
    its log-likelihood;
  \<^item> \<open>randomInt\<close>: one number from the random engine;
  \<^item> \<open>clock\<close>: \<^verbatim>\<open>time(0)\<close>.
\<close>

record 'w environment =
  priors :: "(nat \<times> (nat \<Rightarrow> 'w \<Rightarrow> (nat \<Rightarrow> nat \<Rightarrow> real) \<times> 'w)) list"
  logValue :: "ArrayXd \<Rightarrow> real"
  cluster :: "ArrayXXd \<Rightarrow> int list \<Rightarrow> int list \<Rightarrow> bool \<Rightarrow> 'w
                \<Rightarrow> (int \<times> int list \<times> int list) \<times> 'w"
  drawWithConstraint :: "'w sampler \<Rightarrow> ArrayXXd \<Rightarrow> int \<Rightarrow> int list \<Rightarrow> int list
                \<Rightarrow> ArrayXd \<Rightarrow> real \<Rightarrow> int \<Rightarrow> (bool \<times> ArrayXd \<times> real) \<times> 'w"
  randomInt :: "'w \<Rightarrow> nat \<times> 'w"
  clock :: "'w \<Rightarrow> nat \<times> 'w"

text \<open>The arguments of \<^verbatim>\<open>run\<close>.\<close>

record arguments =
  maxRatioOfRemainderToActualEvidence :: real
  NinitialIterationsWithoutClustering :: int
  NiterationsWithSameClustering :: int
  maxNdrawAttempts :: int

definition discreteUniform :: "('w \<Rightarrow> nat \<times> 'w) \<Rightarrow> nat \<Rightarrow> nat \<Rightarrow> 'w \<Rightarrow> nat \<times> 'w" where
  \<comment> \<open>\<^verbatim>\<open>uniform_int_distribution<int>(a, b)\<close> applied to the engine: some index in \<open>a..b\<close>\<close>
  "discreteUniform engine a b w =
     (case engine w of (r, w') \<Rightarrow> (a + r mod (b - a + 1), w'))"

section \<open>Construction and initialisation\<close>

definition NestedSampler :: "'w environment \<Rightarrow> bool \<Rightarrow> nat \<Rightarrow> 'w \<Rightarrow> 'w sampler" where
  \<comment> \<open>The constructor (lines 27 to 59). \<open>w\<close> is the world with the engine already seeded.\<close>
  "NestedSampler env printOnTheScreen' Nobjects' w =
     \<lparr> printOnTheScreen = printOnTheScreen',
       Ndimensions = fold (\<lambda>p n. n + fst p) (priors env) 0,
       Nobjects = Nobjects',
       nestedSample = [],
       logLikelihood = [],
       posteriorSample = [],
       logLikelihoodOfPosteriorSample = [],
       logWeightOfPosteriorSample = [],
       logCumulatedPriorMass = lowest,
       logRemainingPriorMass = 0,
       worstLiveLogLikelihood = 0,
       logMeanLikelihoodOfLivePoints = 0,
       Niterations = 0,
       informationGain = 0,
       logEvidence = lowest,
       logEvidenceError = 0,
       computationalTime = 0,
       startTime = 0,
       logMeanLiveEvidence = 0,
       ratioOfRemainderToActualEvidence = 0,
       logWidthInPriorMass = 0,
       Nclusters = 0,
       clusterIndices = [],
       clusterSizes = [],
       nestedSamplingShouldContinue = True,
       world = w,
       cerr = [] \<rparr>"

definition setBlock :: "nat \<Rightarrow> nat \<Rightarrow> (nat \<Rightarrow> nat \<Rightarrow> real) \<Rightarrow> ArrayXXd \<Rightarrow> ArrayXXd" where
  \<comment> \<open>\<^verbatim>\<open>m.block(beginIndex, 0, n, cols) = priorSample\<close>: rows \<open>beginIndex\<close> to
      \<open>beginIndex + n - 1\<close> of every column are overwritten\<close>
  "setBlock beginIndex n priorSample m =
     map (\<lambda>j. take beginIndex (m ! j) @ map (\<lambda>r. priorSample r j) [0..<n]
               @ drop (beginIndex + n) (m ! j)) [0..<length m]"

fun drawPriors :: "(nat \<times> (nat \<Rightarrow> 'w \<Rightarrow> (nat \<Rightarrow> nat \<Rightarrow> real) \<times> 'w)) list \<Rightarrow> nat \<Rightarrow> nat
                     \<Rightarrow> ArrayXXd \<Rightarrow> 'w \<Rightarrow> ArrayXXd \<times> 'w" where
  \<comment> \<open>the loop over \<^verbatim>\<open>ptrPriors\<close> (lines 141 to 163)\<close>
  "drawPriors [] beginIndex N m w = (m, w)"
| "drawPriors (p # ps) beginIndex N m w =
     (case snd p N w of (priorSample, w') \<Rightarrow>
        drawPriors ps (beginIndex + fst p) N (setBlock beginIndex (fst p) priorSample m) w')"

definition initialise :: "'w environment \<Rightarrow> 'w sampler \<Rightarrow> 'w sampler" where
  \<comment> \<open>\<^verbatim>\<open>run\<close> up to the \<^verbatim>\<open>do\<close> (lines 122 to 196)\<close>
  "initialise env s =
     (case clock env (world s) of (t, w0) \<Rightarrow>
      case drawPriors (priors env) 0 (Nobjects s)
             (replicate (Nobjects s) (replicate (Ndimensions s) 0)) w0 of (sample, w1) \<Rightarrow>
      let logWidth = ln (1 - exp (- 1 / real (Nobjects s)))
      in s\<lparr> startTime := t,
            nestedSample := sample,
            logLikelihood := map (\<lambda>i. logValue env (sample ! i)) [0..<Nobjects s],
            logWidthInPriorMass := logWidth,
            logCumulatedPriorMass := logExpSum (logCumulatedPriorMass s) logWidth,
            Nclusters := 0,
            clusterIndices := replicate (Nobjects s) 0,
            clusterSizes := [],
            nestedSamplingShouldContinue := True,
            Niterations := 0,
            world := w1 \<rparr>)"

section \<open>One iteration of the nested loop\<close>

definition recordWorst :: "'w sampler \<Rightarrow> 'w sampler" where
  \<comment> \<open>lines 200 to 230, for a non-empty live sample: make room in the posterior arrays,
      find the worst live point, update evidence and information gain, store the worst
      point\<close>
  "recordWorst s =
     (case minCoeff (logLikelihood s) of (worst, indexOfWorst) \<Rightarrow>
      let logWeight = logWidthInPriorMass s + worst;
          logEvidenceNew = logExpSum (logEvidence s) logWeight
      in s\<lparr> posteriorSample :=
               (conservativeResizeXX (Ndimensions s) (Niterations s + 1) (posteriorSample s))
                 [Niterations s := nestedSample s ! indexOfWorst],
             logLikelihoodOfPosteriorSample :=
               (conservativeResize (Niterations s + 1) (logLikelihoodOfPosteriorSample s))
                 [Niterations s := worst],
             logWeightOfPosteriorSample :=
               (conservativeResize (Niterations s + 1) (logWeightOfPosteriorSample s))
                 [Niterations s := logWeight],
             worstLiveLogLikelihood := worst,
             informationGain :=
               exp (logWeight - logEvidenceNew) * worst
               + exp (logEvidence s - logEvidenceNew) * (informationGain s + logEvidence s)
               - logEvidenceNew,
             logEvidence := logEvidenceNew \<rparr>)"

definition meanLiveEvidence :: "'w sampler \<Rightarrow> 'w sampler" where
  \<comment> \<open>lines 233 to 256\<close>
  "meanLiveEvidence s =
     (let logMean = fold (\<lambda>m acc. logExpSum acc (logLikelihood s ! m)) [1..<Nobjects s]
                         (logLikelihood s ! 0)
                    - ln (real (Nobjects s));
          logMeanLive = logMean + real (Niterations s)
                          * (ln (real (Nobjects s)) - ln (real (Nobjects s + 1)))
      in s\<lparr> logMeanLikelihoodOfLivePoints := logMean,
            logMeanLiveEvidence := logMeanLive,
            ratioOfRemainderToActualEvidence := exp (logMeanLive - logEvidence s) \<rparr>)"

definition updateClustering :: "'w environment \<Rightarrow> arguments \<Rightarrow> 'w sampler \<Rightarrow> 'w sampler" where
  \<comment> \<open>lines 259 to 287, for a non-zero \<^verbatim>\<open>NiterationsWithSameClustering\<close>\<close>
  "updateClustering env args s =
     (if crem (int (Niterations s)) (NiterationsWithSameClustering args) = 0 then
        (if int (Niterations s) < NinitialIterationsWithoutClustering args then
           s\<lparr> Nclusters := 1,
              clusterSizes := [int (Nobjects s)],
              clusterIndices := map (\<lambda>_. 0) (clusterIndices s) \<rparr>
         else
           case cluster env (nestedSample s) (clusterIndices s) (clusterSizes s)
                  (printOnTheScreen s) (world s) of ((n, indices, sizes), w') \<Rightarrow>
             s\<lparr> Nclusters := n, clusterIndices := indices, clusterSizes := sizes,
                world := w' \<rparr>)
      else s)"

definition printProgress :: "'w sampler \<Rightarrow> 'w sampler" where
  \<comment> \<open>lines 290 to 304\<close>
  "printProgress s =
     (if printOnTheScreen s \<and> Niterations s mod 50 = 0 then
        s\<lparr> cerr := cerr s @ [Progress (Niterations s) (Nclusters s) (Nobjects s)
                                (exp (logCumulatedPriorMass s))
                                (ratioOfRemainderToActualEvidence s)
                                (logEvidence s) (informationGain s)] \<rparr>
      else s)"

partial_function (option) drawOtherIndex :: "('w \<Rightarrow> nat \<times> 'w) \<Rightarrow> nat \<Rightarrow> nat \<Rightarrow> 'w \<Rightarrow> (nat \<times> 'w) option" where
  \<comment> \<open>the inner \<^verbatim>\<open>do .. while\<close> (lines 319 to 325): draw an index until it is not the worst
      one. Nothing bounds the number of draws, so not returning is the value \<open>None\<close>.\<close>
  "drawOtherIndex engine N indexOfWorst w =
     (case discreteUniform engine 0 (N - 1) w of (i, w') \<Rightarrow>
        if i = indexOfWorst then drawOtherIndex engine N indexOfWorst w' else Some (i, w'))"

definition chooseStart :: "'w environment \<Rightarrow> nat \<Rightarrow> 'w sampler \<Rightarrow> (nat \<times> 'w sampler) option" where
  \<comment> \<open>lines 313 to 326: \<^verbatim>\<open>indexOfRandomlyChosenLivePoint\<close>\<close>
  "chooseStart env indexOfWorst s =
     (if Nobjects s > 1 then
        (case drawOtherIndex (randomInt env) (Nobjects s) indexOfWorst (world s) of
           None \<Rightarrow> None
         | Some (i, w') \<Rightarrow> Some (i, s\<lparr> world := w' \<rparr>))
      else Some (0, s))"

definition drawAndReplace :: "'w environment \<Rightarrow> arguments \<Rightarrow> nat \<Rightarrow> nat \<Rightarrow> 'w sampler
                                \<Rightarrow> bool \<times> 'w sampler" where
  \<comment> \<open>lines 329 to 378. The flag says whether the \<^verbatim>\<open>break\<close> was taken.\<close>
  "drawAndReplace env args indexOfWorst indexOfStart s =
     (case drawWithConstraint env s (nestedSample s) (Nclusters s) (clusterIndices s)
             (clusterSizes s) (nestedSample s ! indexOfStart) 0 (maxNdrawAttempts args) of
        ((newPointIsFound, drawnPoint, logLikelihoodOfDrawnPoint), w') \<Rightarrow>
        if \<not> newPointIsFound then
          (True, s\<lparr> nestedSamplingShouldContinue := False,
                    cerr := cerr s @ [CantFindPoint, StoppingPrematurely],
                    world := w' \<rparr>)
        else
          let logWidth = logWidthInPriorMass s - 1 / real (Nobjects s);
              logCumulated = logExpSum (logCumulatedPriorMass s) logWidth
          in (False,
              s\<lparr> nestedSample := (nestedSample s)[indexOfWorst := drawnPoint],
                 logLikelihood := (logLikelihood s)[indexOfWorst := logLikelihoodOfDrawnPoint],
                 Niterations := Niterations s + 1,
                 nestedSamplingShouldContinue :=
                   (ratioOfRemainderToActualEvidence s
                      > maxRatioOfRemainderToActualEvidence args),
                 logWidthInPriorMass := logWidth,
                 logCumulatedPriorMass := logCumulated,
                 logRemainingPriorMass := ln (1 - exp logCumulated),
                 world := w' \<rparr>))"

definition beforeDraw :: "'w environment \<Rightarrow> arguments \<Rightarrow> 'w sampler
                           \<Rightarrow> (error + nat \<times> nat \<times> 'w sampler) option" where
  \<comment> \<open>The body of the \<^verbatim>\<open>do .. while\<close> up to the call of \<^verbatim>\<open>drawWithConstraint\<close> (lines 200
      to 331): the index of the worst live point, the index of the starting point and
      the state. \<^verbatim>\<open>minCoeff\<close> on an empty array (line 212) and \<^verbatim>\<open>%\<close> with divisor 0
      (line 262) end the program; nothing the iteration did before them is observable.\<close>
  "beforeDraw env args s =
     (if logLikelihood s = [] then Some (Inl EmptyArray)
      else if NiterationsWithSameClustering args = 0 then Some (Inl DivisionByZero)
      else
        let indexOfWorst = snd (minCoeff (logLikelihood s));
            s1 = printProgress (updateClustering env args (meanLiveEvidence (recordWorst s)))
        in case chooseStart env indexOfWorst s1 of
             None \<Rightarrow> None
           | Some (indexOfStart, s2) \<Rightarrow> Some (Inr (indexOfWorst, indexOfStart, s2)))"

definition newPointIsFound :: "'w environment \<Rightarrow> arguments \<Rightarrow> nat \<Rightarrow> 'w sampler \<Rightarrow> bool" where
  \<comment> \<open>the value \<^verbatim>\<open>drawWithConstraint\<close> returns at line 333\<close>
  "newPointIsFound env args indexOfStart s =
     fst (fst (drawWithConstraint env s (nestedSample s) (Nclusters s) (clusterIndices s)
                 (clusterSizes s) (nestedSample s ! indexOfStart) 0 (maxNdrawAttempts args)))"

definition iteration :: "'w environment \<Rightarrow> arguments \<Rightarrow> 'w sampler
                           \<Rightarrow> (error + bool \<times> 'w sampler) option" where
  \<comment> \<open>The body of the \<^verbatim>\<open>do .. while\<close> (lines 200 to 378). The flag of a result says
      whether the \<^verbatim>\<open>break\<close> was taken.\<close>
  "iteration env args s =
     (case beforeDraw env args s of
        None \<Rightarrow> None
      | Some (Inl e) \<Rightarrow> Some (Inl e)
      | Some (Inr (indexOfWorst, indexOfStart, s2)) \<Rightarrow>
          Some (Inr (drawAndReplace env args indexOfWorst indexOfStart s2)))"

section \<open>The loop, the finalisation and \<^verbatim>\<open>run\<close>\<close>

partial_function (option) nestedLoop :: "'w environment \<Rightarrow> arguments \<Rightarrow> 'w sampler
                                           \<Rightarrow> (error + 'w sampler) option" where
  \<comment> \<open>\<^verbatim>\<open>do { .. } while (nestedSamplingShouldContinue)\<close>, left by \<^verbatim>\<open>break\<close> as well.
      The loop may run forever: not returning is \<open>None\<close>.\<close>
  "nestedLoop env args s =
     (case iteration env args s of
        None \<Rightarrow> None
      | Some (Inl e) \<Rightarrow> Some (Inl e)
      | Some (Inr (break, s')) \<Rightarrow>
          if break then Some (Inr s')
          else if nestedSamplingShouldContinue s' then nestedLoop env args s'
          else Some (Inr s'))"

definition setSegment :: "nat \<Rightarrow> 'a list \<Rightarrow> 'a list \<Rightarrow> 'a list" where
  \<comment> \<open>\<^verbatim>\<open>v.segment(start, n) = new\<close> and \<^verbatim>\<open>m.block(0, start, rows, n) = new\<close> with
      \<open>n\<close> the size of \<open>new\<close>\<close>
  "setSegment start new v = take start v @ new @ drop (start + length new) v"

definition printComputationalTime :: "'w environment \<Rightarrow> nat \<Rightarrow> 'w sampler \<Rightarrow> 'w sampler" where
  \<comment> \<open>lines 551 to 580\<close>
  "printComputationalTime env startTime' s =
     (case clock env (world s) of (endTime, w') \<Rightarrow>
      let t = real endTime - real startTime';
          s' = s\<lparr> world := w', cerr := cerr s @ [EmptyLine] \<rparr>
      in if t < 60 then
           s'\<lparr> computationalTime := t, cerr := cerr s' @ [TotalTime t ''seconds''] \<rparr>
         else if t \<ge> 60 \<and> t < 60 * 60 then
           s'\<lparr> computationalTime := t / 60, cerr := cerr s' @ [TotalTime (t / 60) ''minutes''] \<rparr>
         else if t \<ge> 60 * 60 then
           s'\<lparr> computationalTime := t / (60 * 60),
               cerr := cerr s' @ [TotalTime (t / (60 * 60)) ''hours''] \<rparr>
         else if t \<ge> 60 * 60 * 24 then
           s'\<lparr> computationalTime := t / (60 * 60 * 24),
               cerr := cerr s' @ [TotalTime (t / (60 * 60 * 24)) ''days''] \<rparr>
         else s'\<lparr> computationalTime := t \<rparr>)"

definition finalise :: "'w environment \<Rightarrow> 'w sampler \<Rightarrow> 'w sampler" where
  \<comment> \<open>lines 383 to 408\<close>
  "finalise env s =
     (let oldNpointsInPosterior = length (posteriorSample s);
          n = oldNpointsInPosterior + Nobjects s
      in printComputationalTime env (startTime s)
           (s\<lparr> posteriorSample :=
                 setSegment oldNpointsInPosterior (nestedSample s)
                   (conservativeResizeXX (Ndimensions s) n (posteriorSample s)),
               logWeightOfPosteriorSample :=
                 setSegment oldNpointsInPosterior
                   (map (\<lambda>l. logWidthInPriorMass s + l) (logLikelihood s))
                   (conservativeResize n (logWeightOfPosteriorSample s)),
               logLikelihoodOfPosteriorSample :=
                 setSegment oldNpointsInPosterior (logLikelihood s)
                   (conservativeResize n (logLikelihoodOfPosteriorSample s)),
               logEvidenceError := sqrt (\<bar>informationGain s\<bar> / real (Nobjects s)),
               logEvidence := logExpSum (logMeanLiveEvidence s) (logEvidence s) \<rparr>))"

definition run :: "'w environment \<Rightarrow> arguments \<Rightarrow> 'w sampler \<Rightarrow> (error + 'w sampler) option" where
  "run env args s =
     (case nestedLoop env args (initialise env s) of
        None \<Rightarrow> None
      | Some (Inl e) \<Rightarrow> Some (Inl e)
      | Some (Inr s') \<Rightarrow> Some (Inr (finalise env s')))"

text \<open>
  The states at the head of the loop that a run starting in \<open>s0\<close> passes through: \<open>s0\<close>
  itself, and the state after every iteration that neither took the \<^verbatim>\<open>break\<close> nor
  cleared \<^verbatim>\<open>nestedSamplingShouldContinue\<close>.
\<close>

inductive loopHead :: "'w environment \<Rightarrow> arguments \<Rightarrow> 'w sampler \<Rightarrow> 'w sampler \<Rightarrow> bool"
  for env :: "'w environment" and args :: arguments and s0 :: "'w sampler" where
  first: "loopHead env args s0 s0"
| later: "loopHead env args s0 s \<Longrightarrow> iteration env args s = Some (Inr (False, s'))
          \<Longrightarrow> nestedSamplingShouldContinue s' \<Longrightarrow> loopHead env args s0 s'"

section \<open>\<^verbatim>\<open>Results\<close>: parameter estimation\<close>














section \<open>A small instance\<close>

text \<open>
  One live point in one dimension. The prior draws the column number plus a counter, the
  log-likelihood of a point is its coordinate, and the constrained draw moves the
  starting point up by one as long as the iteration count is below the number of
  attempts it is allowed, and gives up after that. With the termination factor 0 the
  loop only ends by the failed draw: in the third iteration with two attempts, in the
  first iteration with none.
\<close>

definition exampleEnvironment :: "nat environment" where
  "exampleEnvironment =
     \<lparr> priors = [(1, \<lambda>N w. (\<lambda>r c. real (w + c), w + 1))],
       logValue = sum_list,
       cluster = (\<lambda>sample indices sizes print w.
                    ((1, map (\<lambda>_. 0) indices, [int (length sample)]), w)),
       drawWithConstraint = (\<lambda>s sample n indices sizes point l attempts.
                    if int (Niterations s) < attempts
                    then ((True, map (\<lambda>x. x + 1) point, worstLiveLogLikelihood s + 1), world s)
                    else ((False, point, l), world s)),
       randomInt = (\<lambda>w. (w, w + 1)),
       clock = (\<lambda>w. (w, w)) \<rparr>"

definition exampleArguments :: arguments where
  "exampleArguments =
     \<lparr> maxRatioOfRemainderToActualEvidence = 0,
       NinitialIterationsWithoutClustering = 1,
       NiterationsWithSameClustering = 1,
       maxNdrawAttempts = 2 \<rparr>"

definition exampleStart :: "nat sampler" where
  "exampleStart = initialise exampleEnvironment (NestedSampler exampleEnvironment False 1 0)"

definition failedFirst :: "nat sampler" where
  \<comment> \<open>the state in which the first iteration ends when no attempt is allowed\<close>
  "failedFirst =
     (meanLiveEvidence (recordWorst exampleStart))
       \<lparr> Nclusters := 1, clusterSizes := [1], clusterIndices := [0],
         nestedSamplingShouldContinue := False,
         cerr := [CantFindPoint, StoppingPrematurely] \<rparr>"

section \<open>Further instances\<close>

text \<open>
  The same collaborators with the sign of the log-likelihood reversed, and two live
  points. The priors draw the points \<open>[0]\<close> and \<open>[1]\<close>, so the worst live point is the
  second one, at index 1.
\<close>

definition descendingEnvironment :: "nat environment" where
  "descendingEnvironment = exampleEnvironment\<lparr> logValue := (\<lambda>x. - sum_list x) \<rparr>"

definition twoPointStart :: "nat sampler" where
  "twoPointStart =
     initialise descendingEnvironment (NestedSampler descendingEnvironment False 2 0)"





text \<open>
  The arrays the priors fill during the initialisation, in their order, each prior
  drawing in the world the one before it has left.
\<close>

fun priorBlocks :: "(nat \<times> (nat \<Rightarrow> 'w \<Rightarrow> (nat \<Rightarrow> nat \<Rightarrow> real) \<times> 'w)) list \<Rightarrow> nat \<Rightarrow> 'w
                      \<Rightarrow> (nat \<times> (nat \<Rightarrow> nat \<Rightarrow> real)) list" where
  "priorBlocks [] N w = []"
| "priorBlocks (p # ps) N w =
     (case snd p N w of (priorSample, w') \<Rightarrow> (fst p, priorSample) # priorBlocks ps N w')"

section \<open>Basic facts about the operations\<close>

lemma minCoeff_fold_inv:
  "1 \<le> n \<Longrightarrow> n \<le> length (v::real list) \<Longrightarrow>
   (case fold (\<lambda>i (m, k). if v ! i < m then (v ! i, i) else (m, k)) [1..<n] (v ! 0, 0) of
      (m, k) \<Rightarrow> k < n \<and> v ! k = m \<and> (\<forall>j<n. m \<le> v ! j))"
proof (induction n)
  case 0
  then show ?case by simp
next
  case (Suc n)
  show ?case
  proof (cases "n = 0")
    case True
    then show ?thesis by simp
  next
    case False
    then have n1: "1 \<le> n" and nl: "n \<le> length v" using Suc.prems by auto
    obtain m k where mk: "fold (\<lambda>i (m, k). if v ! i < m then (v ! i, i) else (m, k)) [1..<n] (v ! 0, 0) = (m, k)"
      by (cases "fold (\<lambda>i (m, k). if v ! i < m then (v ! i, i) else (m, k)) [1..<n] (v ! 0, 0)")
    from Suc.IH [OF n1 nl] mk have ih: "k < n" "v ! k = m" "\<forall>j<n. m \<le> v ! j" by auto
    have up: "[1..<Suc n] = [1..<n] @ [n]" using n1 by simp
    show ?thesis
      unfolding up using mk ih by (auto simp: less_Suc_eq)
  qed
qed

lemma minCoeff_props:
  assumes "v \<noteq> []"
  shows "snd (minCoeff v) < length v"
    and "v ! snd (minCoeff v) = fst (minCoeff v)"
    and "\<forall>j<length v. fst (minCoeff v) \<le> v ! j"
proof -
  have "1 \<le> length v" using assms by (cases v) auto
  from minCoeff_fold_inv [OF this order_refl]
  show "snd (minCoeff v) < length v"
    and "v ! snd (minCoeff v) = fst (minCoeff v)"
    and "\<forall>j<length v. fst (minCoeff v) \<le> v ! j"
    by (auto simp: minCoeff_def split: prod.splits)
qed

lemma minCoeff_Min: "v \<noteq> [] \<Longrightarrow> fst (minCoeff v) = Min (set v)"
proof -
  assume ne: "v \<noteq> []"
  have "fst (minCoeff v) \<in> set v"
    using minCoeff_props(1,2) [OF ne] by (metis nth_mem)
  moreover have "\<forall>x\<in>set v. fst (minCoeff v) \<le> x"
    using minCoeff_props(3) [OF ne] by (auto simp: in_set_conv_nth)
  ultimately show ?thesis
    by (intro Min_eqI [symmetric]) auto
qed

lemma updateClustering_frame:
  "\<exists>n idx sz w. updateClustering env args s
      = s\<lparr> Nclusters := n, clusterIndices := idx, clusterSizes := sz, world := w \<rparr>"
proof -
  consider (forced) "crem (int (Niterations s)) (NiterationsWithSameClustering args) = 0"
        "int (Niterations s) < NinitialIterationsWithoutClustering args"
    | (called) "crem (int (Niterations s)) (NiterationsWithSameClustering args) = 0"
        "\<not> int (Niterations s) < NinitialIterationsWithoutClustering args"
    | (kept) "crem (int (Niterations s)) (NiterationsWithSameClustering args) \<noteq> 0"
    by blast
  then show ?thesis
  proof cases
    case forced
    then have "updateClustering env args s
      = s\<lparr> Nclusters := 1, clusterIndices := map (\<lambda>_. 0) (clusterIndices s),
            clusterSizes := [int (Nobjects s)], world := world s \<rparr>"
      by (simp add: updateClustering_def)
    then show ?thesis by blast
  next
    case called
    obtain n idx sz w where "cluster env (nestedSample s) (clusterIndices s) (clusterSizes s)
                  (printOnTheScreen s) (world s) = ((n, idx, sz), w)"
      by (metis prod.exhaust)
    with called have "updateClustering env args s
      = s\<lparr> Nclusters := n, clusterIndices := idx, clusterSizes := sz, world := w \<rparr>"
      by (simp add: updateClustering_def)
    then show ?thesis by blast
  next
    case kept
    then have "updateClustering env args s
      = s\<lparr> Nclusters := Nclusters s, clusterIndices := clusterIndices s,
                     clusterSizes := clusterSizes s, world := world s \<rparr>"
      by (simp add: updateClustering_def)
    then show ?thesis by blast
  qed
qed

lemma printProgress_frame: "\<exists>c. printProgress s = s\<lparr> cerr := cerr s @ c \<rparr>"
proof (cases "printOnTheScreen s \<and> Niterations s mod 50 = 0")
  case True
  then have "printProgress s = s\<lparr> cerr := cerr s @ [Progress (Niterations s) (Nclusters s) (Nobjects s)
                                (exp (logCumulatedPriorMass s))
                                (ratioOfRemainderToActualEvidence s)
                                (logEvidence s) (informationGain s)] \<rparr>"
    by (simp add: printProgress_def)
  then show ?thesis by blast
next
  case False
  then have "printProgress s = s\<lparr> cerr := cerr s @ [] \<rparr>"
    by (simp add: printProgress_def)
  then show ?thesis by blast
qed

lemma chooseStart_frame:
  assumes "chooseStart env i s = Some (j, s2)"
  shows "\<exists>w. s2 = s\<lparr> world := w \<rparr>"
proof (cases "Nobjects s > 1")
  case True
  with assms obtain w where "s2 = s\<lparr> world := w \<rparr>"
    by (auto simp: chooseStart_def split: option.splits)
  then show ?thesis by blast
next
  case False
  with assms have "s2 = s" by (simp add: chooseStart_def)
  then have "s2 = s\<lparr> world := world s \<rparr>" by simp
  then show ?thesis by (rule exI)
qed

lemma beforeDraw_Inr:
  assumes "beforeDraw env args s = Some (Inr (i, j, s2))"
  obtains n idx sz w c where
    "logLikelihood s \<noteq> []"
    "NiterationsWithSameClustering args \<noteq> 0"
    "i = snd (minCoeff (logLikelihood s))"
    "s2 = (meanLiveEvidence (recordWorst s))
            \<lparr> Nclusters := n, clusterIndices := idx, clusterSizes := sz, cerr := cerr s @ c, world := w \<rparr>"
proof -
  from assms have ne: "logLikelihood s \<noteq> []" and k: "NiterationsWithSameClustering args \<noteq> 0"
    by (auto simp: beforeDraw_def split: if_splits)
  define s1 where "s1 = meanLiveEvidence (recordWorst s)"
  from assms ne k have i: "i = snd (minCoeff (logLikelihood s))" and
    cs: "chooseStart env (snd (minCoeff (logLikelihood s))) (printProgress (updateClustering env args s1)) = Some (j, s2)"
    by (auto simp: beforeDraw_def Let_def s1_def split: option.splits)
  from updateClustering_frame [of env args s1]
  obtain n idx sz w where uc: "updateClustering env args s1
      = s1\<lparr> Nclusters := n, clusterIndices := idx, clusterSizes := sz, world := w \<rparr>"
    by (elim exE)
  from printProgress_frame [of "updateClustering env args s1"]
  obtain c where pp: "printProgress (updateClustering env args s1)
      = (updateClustering env args s1)\<lparr> cerr := cerr (updateClustering env args s1) @ c \<rparr>"
    by (elim exE)
  from chooseStart_frame [OF cs]
  obtain w' where "s2 = (printProgress (updateClustering env args s1))\<lparr> world := w' \<rparr>"
    by (elim exE)
  then have "s2 = (s1\<lparr> Nclusters := n, clusterIndices := idx, clusterSizes := sz, world := w \<rparr>)
                    \<lparr> cerr := cerr (s1\<lparr> Nclusters := n, clusterIndices := idx, clusterSizes := sz, world := w \<rparr>) @ c,
                      world := w' \<rparr>"
    using pp unfolding uc by (simp only:)
  moreover have "cerr s1 = cerr s"
    by (cases "minCoeff (logLikelihood s)") (simp add: s1_def meanLiveEvidence_def recordWorst_def Let_def)
  ultimately have "s2 = s1\<lparr> Nclusters := n, clusterIndices := idx, clusterSizes := sz, cerr := cerr s @ c, world := w' \<rparr>"
    by simp
  with ne k i show thesis using that unfolding s1_def by blast
qed

lemma iteration_beforeDraw:
  assumes "iteration env args s = Some (Inr (b, s'))"
  obtains i j s2 where "beforeDraw env args s = Some (Inr (i, j, s2))"
    "drawAndReplace env args i j s2 = (b, s')"
  using assms unfolding iteration_def
  by (auto split: option.splits sum.splits)

lemma iteration_Inr:
  assumes "iteration env args s = Some (Inr (b, s'))"
  obtains j s2 n idx sz w c where
    "logLikelihood s \<noteq> []"
    "NiterationsWithSameClustering args \<noteq> 0"
    "s2 = (meanLiveEvidence (recordWorst s))
            \<lparr> Nclusters := n, clusterIndices := idx, clusterSizes := sz, cerr := cerr s @ c, world := w \<rparr>"
    "drawAndReplace env args (snd (minCoeff (logLikelihood s))) j s2 = (b, s')"
proof -
  from assms obtain i j s2 where bd: "beforeDraw env args s = Some (Inr (i, j, s2))"
    and dr: "drawAndReplace env args i j s2 = (b, s')"
    by (rule iteration_beforeDraw)
  from bd dr show thesis
    by (elim beforeDraw_Inr) (rule that; simp)
qed

lemma drawAndReplace_cases:
  assumes "drawAndReplace env args i j s = (b, s')"
  obtains (Break) w where "b" 
      "s' = s\<lparr> nestedSamplingShouldContinue := False,
               cerr := cerr s @ [CantFindPoint, StoppingPrematurely], world := w \<rparr>"
  | (Replace) p l w where "\<not> b"
      "drawWithConstraint env s (nestedSample s) (Nclusters s) (clusterIndices s)
             (clusterSizes s) (nestedSample s ! j) 0 (maxNdrawAttempts args) = ((True, p, l), w)"
      "s' = s\<lparr> nestedSample := (nestedSample s)[i := p],
                 logLikelihood := (logLikelihood s)[i := l],
                 Niterations := Niterations s + 1,
                 nestedSamplingShouldContinue :=
                   (ratioOfRemainderToActualEvidence s > maxRatioOfRemainderToActualEvidence args),
                 logWidthInPriorMass := logWidthInPriorMass s - 1 / real (Nobjects s),
                 logCumulatedPriorMass := logExpSum (logCumulatedPriorMass s) (logWidthInPriorMass s - 1 / real (Nobjects s)),
                 logRemainingPriorMass := ln (1 - exp (logExpSum (logCumulatedPriorMass s) (logWidthInPriorMass s - 1 / real (Nobjects s)))),
                 world := w \<rparr>"
  using assms unfolding drawAndReplace_def
  by (auto simp: Let_def split: prod.splits if_splits)

lemma recordWorst_logEvidence:
  "logLikelihood s \<noteq> [] \<Longrightarrow> logEvidence (recordWorst s)
     = logExpSum (logEvidence s) (logWidthInPriorMass s + Min (set (logLikelihood s)))"
  using minCoeff_Min [of "logLikelihood s"]
  by (cases "minCoeff (logLikelihood s)") (simp add: recordWorst_def Let_def)

lemma recordWorst_informationGain:
  "logLikelihood s \<noteq> [] \<Longrightarrow> informationGain (recordWorst s)
     = exp (logWidthInPriorMass s + Min (set (logLikelihood s)) - logEvidence (recordWorst s))
         * Min (set (logLikelihood s))
       + exp (logEvidence s - logEvidence (recordWorst s)) * (informationGain s + logEvidence s)
       - logEvidence (recordWorst s)"
  using minCoeff_Min [of "logLikelihood s"]
  by (cases "minCoeff (logLikelihood s)") (simp add: recordWorst_def Let_def)

section \<open>The small instance, evaluated\<close>

lemma exampleStart_eq:
  "exampleStart = (NestedSampler exampleEnvironment False 1 0)
     \<lparr> startTime := 0, nestedSample := [[0]], logLikelihood := [0],
       logWidthInPriorMass := ln (1 - exp (- 1)),
       logCumulatedPriorMass := logExpSum lowest (ln (1 - exp (- 1))),
       Nclusters := 0, clusterIndices := [0], clusterSizes := [],
       nestedSamplingShouldContinue := True, Niterations := 0, world := 1 \<rparr>"
  by (simp add: exampleStart_def initialise_def exampleEnvironment_def NestedSampler_def setBlock_def Let_def)

lemma example_first:
  "\<exists>s'. iteration exampleEnvironment exampleArguments exampleStart = Some (Inr (False, s'))"
  unfolding exampleStart_eq
  by (simp add: iteration_def beforeDraw_def NestedSampler_def chooseStart_def drawAndReplace_def
       printProgress_def updateClustering_def meanLiveEvidence_def recordWorst_def
       exampleEnvironment_def exampleArguments_def minCoeff_def Let_def)

section \<open>The evidence and information-gain recurrence\<close>

text \<open>
  C1. Every iteration that returns, whether it replaces the worst live point or leaves
  the loop by the failed draw, has updated the accumulators from the worst live
  log-likelihood \<open>Lw = Min (set (logLikelihood s))\<close> and the current width
  \<open>w = logWidthInPriorMass s\<close>: the new \<open>logEvidence\<close> is \<open>logExpSum\<close> of the old one and
  \<open>w + Lw\<close>, and the new \<open>informationGain\<close> is
  \<open>exp (w + Lw - logEvidence') * Lw + exp (logEvidence - logEvidence') *
  (informationGain + logEvidence) - logEvidence'\<close>, where the \<open>logEvidence\<close> of the second
  term is the value before the update.
\<close>

theorem evidence_update:
  assumes "iteration env args s = Some (Inr (b, s'))"
  shows "logEvidence s'
           = logExpSum (logEvidence s) (logWidthInPriorMass s + Min (set (logLikelihood s)))
       \<and> informationGain s'
           = exp ((logWidthInPriorMass s + Min (set (logLikelihood s))) - logEvidence s')
               * Min (set (logLikelihood s))
             + exp (logEvidence s - logEvidence s') * (informationGain s + logEvidence s)
             - logEvidence s'"
proof -
  from assms obtain j s2 n idx sz w c where
    ne: "logLikelihood s \<noteq> []"
    and s2: "s2 = (meanLiveEvidence (recordWorst s))
            \<lparr> Nclusters := n, clusterIndices := idx, clusterSizes := sz, cerr := cerr s @ c, world := w \<rparr>"
    and dr: "drawAndReplace env args (snd (minCoeff (logLikelihood s))) j s2 = (b, s')"
    by (rule iteration_Inr)
  have e2: "logEvidence s2 = logEvidence (recordWorst s)"
    and g2: "informationGain s2 = informationGain (recordWorst s)"
    by (simp_all add: s2 meanLiveEvidence_def Let_def)
  from dr have "logEvidence s' = logEvidence s2 \<and> informationGain s' = informationGain s2"
    by (cases rule: drawAndReplace_cases) simp_all
  then show ?thesis
    using recordWorst_logEvidence [OF ne] recordWorst_informationGain [OF ne] e2 g2 by simp
qed

theorem evidence_update_witness:
  "\<exists>s'. iteration exampleEnvironment exampleArguments exampleStart = Some (Inr (False, s'))
      \<and> logEvidence s' = logExpSum lowest (ln (1 - exp (- 1)) + 0)
      \<and> informationGain s'
           = exp (ln (1 - exp (- 1)) + 0 - logEvidence s') * 0
             + exp (lowest - logEvidence s') * (0 + lowest) - logEvidence s'"
proof -
  from example_first obtain s' where
    h: "iteration exampleEnvironment exampleArguments exampleStart = Some (Inr (False, s'))"
    by (elim exE)
  from evidence_update [OF h] h show ?thesis
    by (intro exI [of _ s']) (simp add: exampleStart_eq NestedSampler_def)
qed

section \<open>The loop and its invariants\<close>

lemma nestedLoop_break:
  "iteration env args s = Some (Inr (True, s')) \<Longrightarrow> nestedLoop env args s = Some (Inr s')"
  by (subst nestedLoop.simps) simp

lemma nestedLoop_stop:
  "iteration env args s = Some (Inr (False, s')) \<Longrightarrow> \<not> nestedSamplingShouldContinue s'
     \<Longrightarrow> nestedLoop env args s = Some (Inr s')"
  by (subst nestedLoop.simps) simp

lemma nestedLoop_continue:
  "iteration env args s = Some (Inr (False, s')) \<Longrightarrow> nestedSamplingShouldContinue s'
     \<Longrightarrow> nestedLoop env args s = nestedLoop env args s'"
  by (subst nestedLoop.simps) simp

lemma nestedLoop_loopHead:
  "loopHead env args s0 s \<Longrightarrow> nestedLoop env args s0 = nestedLoop env args s"
  by (induction rule: loopHead.induct) (simp_all add: nestedLoop_continue)

lemma nestedLoop_last_aux:
  assumes "nestedLoop env args s = Some y"
  shows "\<forall>s0 r. loopHead env args s0 s \<longrightarrow> y = Inr r \<longrightarrow>
        (\<exists>sh b. loopHead env args s0 sh \<and> iteration env args sh = Some (Inr (b, r))
                \<and> (b \<or> \<not> nestedSamplingShouldContinue r))"
proof (rule nestedLoop.raw_induct [OF _ assms], goal_cases)
  case (1 loop env args s y)
  show ?case
  proof (intro allI impI)
    fix s0 r
    assume lh: "loopHead env args s0 s" and y: "y = Inr r"
    from 1(2) y obtain b s' where it: "iteration env args s = Some (Inr (b, s'))"
      by (auto split: option.splits sum.splits)
    show "\<exists>sh b. loopHead env args s0 sh \<and> iteration env args sh = Some (Inr (b, r))
                \<and> (b \<or> \<not> nestedSamplingShouldContinue r)"
    proof (cases "b \<or> \<not> nestedSamplingShouldContinue s'")
      case True
      with 1(2) it y have "r = s'" by (auto split: if_splits)
      with lh it True show ?thesis by blast
    next
      case False
      with 1(2) it have rec: "loop env args s' = Some y" by simp
      from lh it False have "loopHead env args s0 s'" by (auto intro: loopHead.later)
      with 1(1) [OF rec] y show ?thesis by blast
    qed
  qed
qed

lemma nestedLoop_last:
  assumes "nestedLoop env args s0 = Some (Inr r)"
  obtains sh b where "loopHead env args s0 sh" "iteration env args sh = Some (Inr (b, r))"
    "b \<or> \<not> nestedSamplingShouldContinue r"
  using nestedLoop_last_aux [OF assms] loopHead.first [of env args s0] by blast

lemma length_setBlock [simp]: "length (setBlock b n f m) = length m"
  by (simp add: setBlock_def)

lemma length_drawPriors [simp]: "length (fst (drawPriors ps b N m w)) = length m"
  by (induction ps arbitrary: b m w) (auto split: prod.splits)

lemma initialise_live:
  "Nobjects (initialise env c) = Nobjects c"
  "Ndimensions (initialise env c) = Ndimensions c"
  "Niterations (initialise env c) = 0"
  "length (nestedSample (initialise env c)) = Nobjects c"
  "length (logLikelihood (initialise env c)) = Nobjects c"
proof -
  obtain t w0 where c: "clock env (world c) = (t, w0)" by (cases "clock env (world c)")
  obtain sample w1 where d: "drawPriors (priors env) 0 (Nobjects c)
             (replicate (Nobjects c) (replicate (Ndimensions c) 0)) w0 = (sample, w1)"
    by (metis prod.exhaust)
  have "length sample = Nobjects c"
    using length_drawPriors [of "priors env" 0 "Nobjects c" "replicate (Nobjects c) (replicate (Ndimensions c) 0)" w0]
    by (simp add: d)
  then show "Nobjects (initialise env c) = Nobjects c"
  "Ndimensions (initialise env c) = Ndimensions c"
  "Niterations (initialise env c) = 0"
  "length (nestedSample (initialise env c)) = Nobjects c"
  "length (logLikelihood (initialise env c)) = Nobjects c"
    by (simp_all add: initialise_def c d Let_def)
qed

lemma recordWorst_live:
  "Nobjects (recordWorst s) = Nobjects s"
  "Ndimensions (recordWorst s) = Ndimensions s"
  "Niterations (recordWorst s) = Niterations s"
  "nestedSample (recordWorst s) = nestedSample s"
  "logLikelihood (recordWorst s) = logLikelihood s"
  "logWidthInPriorMass (recordWorst s) = logWidthInPriorMass s"
  "logCumulatedPriorMass (recordWorst s) = logCumulatedPriorMass s"
  "logRemainingPriorMass (recordWorst s) = logRemainingPriorMass s"
  "cerr (recordWorst s) = cerr s"
  "startTime (recordWorst s) = startTime s"
  "Nclusters (recordWorst s) = Nclusters s"
  "clusterIndices (recordWorst s) = clusterIndices s"
  "clusterSizes (recordWorst s) = clusterSizes s"
  "world (recordWorst s) = world s"
  "printOnTheScreen (recordWorst s) = printOnTheScreen s"
  by (cases "minCoeff (logLikelihood s)"; simp add: recordWorst_def Let_def)+

lemma meanLiveEvidence_live:
  "Nobjects (meanLiveEvidence s) = Nobjects s"
  "Ndimensions (meanLiveEvidence s) = Ndimensions s"
  "Niterations (meanLiveEvidence s) = Niterations s"
  "nestedSample (meanLiveEvidence s) = nestedSample s"
  "logLikelihood (meanLiveEvidence s) = logLikelihood s"
  "logWidthInPriorMass (meanLiveEvidence s) = logWidthInPriorMass s"
  "logCumulatedPriorMass (meanLiveEvidence s) = logCumulatedPriorMass s"
  "logRemainingPriorMass (meanLiveEvidence s) = logRemainingPriorMass s"
  "cerr (meanLiveEvidence s) = cerr s"
  "startTime (meanLiveEvidence s) = startTime s"
  "Nclusters (meanLiveEvidence s) = Nclusters s"
  "clusterIndices (meanLiveEvidence s) = clusterIndices s"
  "clusterSizes (meanLiveEvidence s) = clusterSizes s"
  "world (meanLiveEvidence s) = world s"
  "printOnTheScreen (meanLiveEvidence s) = printOnTheScreen s"
  "posteriorSample (meanLiveEvidence s) = posteriorSample s"
  "logLikelihoodOfPosteriorSample (meanLiveEvidence s) = logLikelihoodOfPosteriorSample s"
  "logWeightOfPosteriorSample (meanLiveEvidence s) = logWeightOfPosteriorSample s"
  "logEvidence (meanLiveEvidence s) = logEvidence s"
  "informationGain (meanLiveEvidence s) = informationGain s"
  "worstLiveLogLikelihood (meanLiveEvidence s) = worstLiveLogLikelihood s"
  by (simp_all add: meanLiveEvidence_def Let_def)

lemma iteration_live:
  assumes "iteration env args s = Some (Inr (b, s'))"
  shows "Nobjects s' = Nobjects s"
    and "Ndimensions s' = Ndimensions s"
    and "length (nestedSample s') = length (nestedSample s)"
    and "length (logLikelihood s') = length (logLikelihood s)"
    and "startTime s' = startTime s"
    and "Niterations s' = (if b then Niterations s else Niterations s + 1)"
proof -
  from assms obtain j s2 n idx sz w c where
    s2: "s2 = (meanLiveEvidence (recordWorst s))
            \<lparr> Nclusters := n, clusterIndices := idx, clusterSizes := sz, cerr := cerr s @ c, world := w \<rparr>"
    and dr: "drawAndReplace env args (snd (minCoeff (logLikelihood s))) j s2 = (b, s')"
    by (rule iteration_Inr)
  from dr show "Nobjects s' = Nobjects s"
    and "Ndimensions s' = Ndimensions s"
    and "length (nestedSample s') = length (nestedSample s)"
    and "length (logLikelihood s') = length (logLikelihood s)"
    and "startTime s' = startTime s"
    and "Niterations s' = (if b then Niterations s else Niterations s + 1)"
    by (cases rule: drawAndReplace_cases; simp add: s2 meanLiveEvidence_live recordWorst_live)+
qed

lemma loopHead_live:
  assumes "loopHead env args s0 s"
  shows "Nobjects s = Nobjects s0 \<and> Ndimensions s = Ndimensions s0
       \<and> length (nestedSample s) = length (nestedSample s0)
       \<and> length (logLikelihood s) = length (logLikelihood s0)
       \<and> startTime s = startTime s0"
  using assms
proof (induction rule: loopHead.induct)
  case first
  show ?case by simp
next
  case (later s s')
  then show ?case using iteration_live [OF later(2)] by simp
qed

lemma logExpSum_ln: "0 < a \<Longrightarrow> logExpSum (ln a) x = ln (a + exp x)"
  by (simp add: logExpSum_def)

lemma sum_exp_nonneg: "0 \<le> (\<Sum>x\<leftarrow>xs. exp (x::real))"
  by (induction xs) auto

lemma sum_exp_pos: "xs \<noteq> [] \<Longrightarrow> 0 < (\<Sum>x\<leftarrow>xs. exp (x::real))"
proof (cases xs)
  case Nil
  assume "xs \<noteq> []"
  with Nil show ?thesis by simp
next
  case (Cons a ys)
  have "0 < exp a + (\<Sum>x\<leftarrow>ys. exp x)"
    using sum_exp_nonneg [of ys] exp_gt_zero [of a] by linarith
  with Cons show ?thesis by simp
qed

lemma fold_logExpSum:
  "1 \<le> n \<Longrightarrow> n \<le> length v \<Longrightarrow>
     fold (\<lambda>m acc. logExpSum acc (v ! m)) [1..<n] (v ! 0) = ln (\<Sum>x\<leftarrow>take n v. exp x)"
proof (induction n)
  case 0
  then show ?case by simp
next
  case (Suc n)
  show ?case
  proof (cases "n = 0")
    case True
    with Suc.prems have "take (Suc n) v = [v ! 0]"
      by (cases v) auto
    with True show ?thesis by simp
  next
    case False
    then have n1: "1 \<le> n" and nl: "n \<le> length v" and nlt: "n < length v" using Suc.prems by auto
    have up: "[1..<Suc n] = [1..<n] @ [n]" using n1 by simp
    have tk: "take (Suc n) v = take n v @ [v ! n]" using nlt by (simp add: take_Suc_conv_app_nth)
    have ne: "take n v \<noteq> []" using n1 nl by (cases v) auto
    show ?thesis
      unfolding up tk using Suc.IH [OF n1 nl] logExpSum_ln [OF sum_exp_pos [OF ne]]
      by simp
  qed
qed

lemma meanLiveEvidence_value:
  assumes "logLikelihood s \<noteq> []" and "length (logLikelihood s) = Nobjects s"
  shows "logMeanLiveEvidence (meanLiveEvidence s)
     = (ln (\<Sum>l\<leftarrow>logLikelihood s. exp l) - ln (real (Nobjects s)))
       + real (Niterations s) * (ln (real (Nobjects s)) - ln (real (Nobjects s + 1)))"
    and "ratioOfRemainderToActualEvidence (meanLiveEvidence s)
     = exp (logMeanLiveEvidence (meanLiveEvidence s) - logEvidence s)"
proof -
  have "1 \<le> Nobjects s" using assms by (cases "logLikelihood s") auto
  from fold_logExpSum [OF this, of "logLikelihood s"] assms(2)
  show "logMeanLiveEvidence (meanLiveEvidence s)
     = (ln (\<Sum>l\<leftarrow>logLikelihood s. exp l) - ln (real (Nobjects s)))
       + real (Niterations s) * (ln (real (Nobjects s)) - ln (real (Nobjects s + 1)))"
    by (simp add: meanLiveEvidence_def Let_def)
  show "ratioOfRemainderToActualEvidence (meanLiveEvidence s)
     = exp (logMeanLiveEvidence (meanLiveEvidence s) - logEvidence s)"
    by (simp add: meanLiveEvidence_def Let_def)
qed

section \<open>The mean live evidence and the stopping criterion\<close>

text \<open>
  C2. In every iteration of a run, \<open>logMeanLiveEvidence\<close> becomes the log-sum-exp of all
  live log-likelihoods minus \<open>ln N\<close>, plus \<open>Niterations * (ln N - ln (N + 1))\<close>, taken on
  the live sample before the replacement and with the iteration count before its
  increment. When the draw succeeds the loop goes on with the next iteration exactly when
  \<open>exp (logMeanLiveEvidence - logEvidence)\<close>, with the evidence updated in this same
  iteration, exceeds \<open>maxRatioOfRemainderToActualEvidence\<close>; when the draw fails the loop
  ends at once.
\<close>

theorem mean_live_evidence_and_continuation:
  assumes "loopHead env args (initialise env c) s"
      and "iteration env args s = Some (Inr (b, s'))"
  shows "logMeanLiveEvidence s'
           = (ln (\<Sum>l\<leftarrow>logLikelihood s. exp l) - ln (real (Nobjects s)))
             + real (Niterations s) * (ln (real (Nobjects s)) - ln (real (Nobjects s + 1)))
       \<and> (b \<longrightarrow> nestedLoop env args s = Some (Inr s'))
       \<and> (\<not> b \<longrightarrow> nestedLoop env args s
              = (if exp (logMeanLiveEvidence s' - logEvidence s')
                      > maxRatioOfRemainderToActualEvidence args
                 then nestedLoop env args s' else Some (Inr s')))"
proof -
  from loopHead_live [OF assms(1)] have len: "length (logLikelihood s) = Nobjects s"
    by (simp add: initialise_live)
  from assms(2) obtain j s2 n idx sz w c where
    ne: "logLikelihood s \<noteq> []"
    and s2: "s2 = (meanLiveEvidence (recordWorst s))
            \<lparr> Nclusters := n, clusterIndices := idx, clusterSizes := sz, cerr := cerr s @ c, world := w \<rparr>"
    and dr: "drawAndReplace env args (snd (minCoeff (logLikelihood s))) j s2 = (b, s')"
    by (rule iteration_Inr)
  have ne': "logLikelihood (recordWorst s) \<noteq> []"
    and len': "length (logLikelihood (recordWorst s)) = Nobjects (recordWorst s)"
    using ne len by (simp_all add: recordWorst_live)
  have m2: "logMeanLiveEvidence s2
           = (ln (\<Sum>l\<leftarrow>logLikelihood s. exp l) - ln (real (Nobjects s)))
             + real (Niterations s) * (ln (real (Nobjects s)) - ln (real (Nobjects s + 1)))"
    using meanLiveEvidence_value(1) [OF ne' len'] by (simp add: s2 recordWorst_live)
  have r2: "ratioOfRemainderToActualEvidence s2 = exp (logMeanLiveEvidence s2 - logEvidence s2)"
    using meanLiveEvidence_value(2) [OF ne' len'] by (simp add: s2 meanLiveEvidence_live)
  from dr have keep: "logMeanLiveEvidence s' = logMeanLiveEvidence s2" "logEvidence s' = logEvidence s2"
    and cont: "\<not> b \<Longrightarrow> nestedSamplingShouldContinue s'
                  = (ratioOfRemainderToActualEvidence s2 > maxRatioOfRemainderToActualEvidence args)"
    by (cases rule: drawAndReplace_cases; simp)+
  have "b \<Longrightarrow> nestedLoop env args s = Some (Inr s')"
    using assms(2) by (simp add: nestedLoop_break)
  moreover have "\<not> b \<Longrightarrow> nestedLoop env args s
              = (if exp (logMeanLiveEvidence s' - logEvidence s')
                      > maxRatioOfRemainderToActualEvidence args
                 then nestedLoop env args s' else Some (Inr s'))"
    using assms(2) cont r2 keep by (simp add: nestedLoop_continue nestedLoop_stop)
  ultimately show ?thesis using m2 keep by simp
qed

theorem mean_live_evidence_and_continuation_witness:
  "\<exists>s'. iteration exampleEnvironment exampleArguments exampleStart = Some (Inr (False, s'))
      \<and> logMeanLiveEvidence s' = (ln (exp 0) - ln 1) + 0 * (ln 1 - ln 2)
      \<and> nestedLoop exampleEnvironment exampleArguments exampleStart
          = nestedLoop exampleEnvironment exampleArguments s'"
proof -
  from example_first obtain s' where
    h: "iteration exampleEnvironment exampleArguments exampleStart = Some (Inr (False, s'))"
    by (elim exE)
  have lh: "loopHead exampleEnvironment exampleArguments
              (initialise exampleEnvironment (NestedSampler exampleEnvironment False 1 0))
              exampleStart"
    unfolding exampleStart_def by (rule loopHead.first)
  from mean_live_evidence_and_continuation [OF lh h] h show ?thesis
    by (intro exI [of _ s']) (simp add: exampleStart_eq NestedSampler_def exampleArguments_def)
qed

section \<open>The posterior arrays and the finalisation\<close>

lemma conservativeResize_set_last:
  "n \<le> length v \<Longrightarrow> (conservativeResize (Suc n) v)[n := x] = take n v @ [x]"
proof (cases "n = length v")
  case True
  then show ?thesis by (simp add: conservativeResize_def list_update_append)
next
  case False
  assume "n \<le> length v"
  with False have lt: "n < length v" by simp
  then have "take (Suc n) v = take n v @ [v ! n]" by (simp add: take_Suc_conv_app_nth)
  with lt show ?thesis by (simp add: conservativeResize_def list_update_append)
qed

lemma conservativeResizeXX_set_last:
  "n \<le> length m \<Longrightarrow> (conservativeResizeXX r (Suc n) m)[n := x] = take n m @ [x]"
proof (cases "n = length m")
  case True
  then show ?thesis by (simp add: conservativeResizeXX_def list_update_append)
next
  case False
  assume "n \<le> length m"
  with False have lt: "n < length m" by simp
  then have "take (Suc n) m = take n m @ [m ! n]" by (simp add: take_Suc_conv_app_nth)
  with lt show ?thesis by (simp add: conservativeResizeXX_def list_update_append)
qed

lemma length_conservativeResize [simp]: "length (conservativeResize n v) = n"
  by (simp add: conservativeResize_def)

lemma length_conservativeResizeXX [simp]: "length (conservativeResizeXX r n m) = n"
  by (simp add: conservativeResizeXX_def)

lemma recordWorst_posterior_lengths:
  "length (posteriorSample (recordWorst s)) = Niterations s + 1"
  "length (logLikelihoodOfPosteriorSample (recordWorst s)) = Niterations s + 1"
  "length (logWeightOfPosteriorSample (recordWorst s)) = Niterations s + 1"
  by (cases "minCoeff (logLikelihood s)"; simp add: recordWorst_def Let_def)+

lemma recordWorst_posterior:
  assumes "logLikelihood s \<noteq> []"
  shows "Niterations s \<le> length (posteriorSample s) \<Longrightarrow>
         posteriorSample (recordWorst s)
           = take (Niterations s) (posteriorSample s)
             @ [nestedSample s ! snd (minCoeff (logLikelihood s))]"
    and "Niterations s \<le> length (logLikelihoodOfPosteriorSample s) \<Longrightarrow>
         logLikelihoodOfPosteriorSample (recordWorst s)
           = take (Niterations s) (logLikelihoodOfPosteriorSample s)
             @ [Min (set (logLikelihood s))]"
    and "Niterations s \<le> length (logWeightOfPosteriorSample s) \<Longrightarrow>
         logWeightOfPosteriorSample (recordWorst s)
           = take (Niterations s) (logWeightOfPosteriorSample s)
             @ [logWidthInPriorMass s + Min (set (logLikelihood s))]"
    and "worstLiveLogLikelihood (recordWorst s) = Min (set (logLikelihood s))"
  using minCoeff_Min [OF assms]
  by (cases "minCoeff (logLikelihood s)";
      simp add: recordWorst_def Let_def conservativeResize_set_last conservativeResizeXX_set_last)+

lemma iteration_posterior:
  assumes "iteration env args s = Some (Inr (b, s'))"
  shows "posteriorSample s' = posteriorSample (recordWorst s)"
    and "logLikelihoodOfPosteriorSample s' = logLikelihoodOfPosteriorSample (recordWorst s)"
    and "logWeightOfPosteriorSample s' = logWeightOfPosteriorSample (recordWorst s)"
    and "logLikelihood s \<noteq> []"
proof -
  from assms obtain j s2 n idx sz w c where
    ne: "logLikelihood s \<noteq> []" and
    s2: "s2 = (meanLiveEvidence (recordWorst s))
            \<lparr> Nclusters := n, clusterIndices := idx, clusterSizes := sz, cerr := cerr s @ c, world := w \<rparr>"
    and dr: "drawAndReplace env args (snd (minCoeff (logLikelihood s))) j s2 = (b, s')"
    by (rule iteration_Inr)
  show "logLikelihood s \<noteq> []" by (rule ne)
  from dr show "posteriorSample s' = posteriorSample (recordWorst s)"
    and "logLikelihoodOfPosteriorSample s' = logLikelihoodOfPosteriorSample (recordWorst s)"
    and "logWeightOfPosteriorSample s' = logWeightOfPosteriorSample (recordWorst s)"
    by (cases rule: drawAndReplace_cases; simp add: s2 meanLiveEvidence_live)+
qed

lemma loopHead_posterior:
  assumes "loopHead env args s0 s" and "Niterations s0 = 0"
  shows "Niterations s \<le> length (posteriorSample s)
       \<and> Niterations s \<le> length (logLikelihoodOfPosteriorSample s)
       \<and> Niterations s \<le> length (logWeightOfPosteriorSample s)"
  using assms
proof (induction rule: loopHead.induct)
  case first
  then show ?case by simp
next
  case (later s s')
  from iteration_live(6) [OF later(2)] iteration_posterior(1-3) [OF later(2)]
  show ?case by (simp add: recordWorst_posterior_lengths)
qed

lemma printComputationalTime_frame:
  "\<exists>w c t. printComputationalTime env st s
     = s\<lparr> world := w, cerr := cerr s @ c, computationalTime := t \<rparr>"
proof -
  obtain e w where c: "clock env (world s) = (e, w)" by (cases "clock env (world s)")
  define t where "t = real e - real st"
  consider "t < 60" | "\<not> t < 60" "t < 60 * 60" | "\<not> t < 60" "\<not> t < 60 * 60" by blast
  then show ?thesis
  proof cases
    case 1
    then have "printComputationalTime env st s
      = s\<lparr> world := w, cerr := cerr s @ [EmptyLine, TotalTime t ''seconds''], computationalTime := t \<rparr>"
      by (simp add: printComputationalTime_def c Let_def t_def)
    then show ?thesis by blast
  next
    case 2
    then have "printComputationalTime env st s
      = s\<lparr> world := w, cerr := cerr s @ [EmptyLine, TotalTime (t / 60) ''minutes''], computationalTime := t / 60 \<rparr>"
      by (simp add: printComputationalTime_def c Let_def t_def)
    then show ?thesis by blast
  next
    case 3
    then have "printComputationalTime env st s
      = s\<lparr> world := w, cerr := cerr s @ [EmptyLine, TotalTime (t / (60 * 60)) ''hours''],
            computationalTime := t / (60 * 60) \<rparr>"
      by (simp add: printComputationalTime_def c Let_def t_def)
    then show ?thesis by blast
  qed
qed

lemma setSegment_end: "length v = a \<Longrightarrow> setSegment a new (v @ pad) = v @ new @ drop (length new) pad"
  by (simp add: setSegment_def)

lemma finalise_fields:
  assumes "length (nestedSample s) = Nobjects s" and "length (logLikelihood s) = Nobjects s"
    and "length (logWeightOfPosteriorSample s) = length (posteriorSample s)"
    and "length (logLikelihoodOfPosteriorSample s) = length (posteriorSample s)"
  shows "posteriorSample (finalise env s) = posteriorSample s @ nestedSample s"
    and "logWeightOfPosteriorSample (finalise env s)
           = logWeightOfPosteriorSample s @ map (\<lambda>l. logWidthInPriorMass s + l) (logLikelihood s)"
    and "logLikelihoodOfPosteriorSample (finalise env s)
           = logLikelihoodOfPosteriorSample s @ logLikelihood s"
    and "logEvidenceError (finalise env s) = sqrt (\<bar>informationGain s\<bar> / real (Nobjects s))"
    and "logEvidence (finalise env s) = logExpSum (logMeanLiveEvidence s) (logEvidence s)"
    and "\<exists>c. cerr (finalise env s) = cerr s @ c"
proof -
  define s1 where "s1 = s\<lparr> posteriorSample :=
                 setSegment (length (posteriorSample s)) (nestedSample s)
                   (conservativeResizeXX (Ndimensions s) (length (posteriorSample s) + Nobjects s) (posteriorSample s)),
               logWeightOfPosteriorSample :=
                 setSegment (length (posteriorSample s))
                   (map (\<lambda>l. logWidthInPriorMass s + l) (logLikelihood s))
                   (conservativeResize (length (posteriorSample s) + Nobjects s) (logWeightOfPosteriorSample s)),
               logLikelihoodOfPosteriorSample :=
                 setSegment (length (posteriorSample s)) (logLikelihood s)
                   (conservativeResize (length (posteriorSample s) + Nobjects s) (logLikelihoodOfPosteriorSample s)),
               logEvidenceError := sqrt (\<bar>informationGain s\<bar> / real (Nobjects s)),
               logEvidence := logExpSum (logMeanLiveEvidence s) (logEvidence s) \<rparr>"
  have f: "finalise env s = printComputationalTime env (startTime s) s1"
    by (simp add: finalise_def Let_def s1_def)
  from printComputationalTime_frame [of env "startTime s" s1]
  obtain w c t where p: "printComputationalTime env (startTime s) s1
     = s1\<lparr> world := w, cerr := cerr s1 @ c, computationalTime := t \<rparr>" by (elim exE)
  have a: "posteriorSample s1 = posteriorSample s @ nestedSample s"
    using assms(1) by (simp add: s1_def conservativeResizeXX_def setSegment_def)
  have b: "logWeightOfPosteriorSample s1
           = logWeightOfPosteriorSample s @ map (\<lambda>l. logWidthInPriorMass s + l) (logLikelihood s)"
    using assms(2,3) by (simp add: s1_def conservativeResize_def setSegment_def)
  have c: "logLikelihoodOfPosteriorSample s1
           = logLikelihoodOfPosteriorSample s @ logLikelihood s"
    using assms(2,4) by (simp add: s1_def conservativeResize_def setSegment_def)
  show "posteriorSample (finalise env s) = posteriorSample s @ nestedSample s"
    and "logWeightOfPosteriorSample (finalise env s)
           = logWeightOfPosteriorSample s @ map (\<lambda>l. logWidthInPriorMass s + l) (logLikelihood s)"
    and "logLikelihoodOfPosteriorSample (finalise env s)
           = logLikelihoodOfPosteriorSample s @ logLikelihood s"
    using a b c by (simp_all add: f p)
  show "logEvidenceError (finalise env s) = sqrt (\<bar>informationGain s\<bar> / real (Nobjects s))"
    and "logEvidence (finalise env s) = logExpSum (logMeanLiveEvidence s) (logEvidence s)"
    by (simp_all add: f p) (simp_all add: s1_def)
  have "cerr (finalise env s) = cerr s @ c" by (simp add: f p) (simp add: s1_def)
  then show "\<exists>c. cerr (finalise env s) = cerr s @ c" by blast
qed

lemma run_Inr:
  assumes "run env args c = Some (Inr r)"
  obtains s where "nestedLoop env args (initialise env c) = Some (Inr s)" "r = finalise env s"
  using assms unfolding run_def by (auto split: option.splits sum.splits)

lemma loop_exit_shape:
  assumes "nestedLoop env args (initialise env c) = Some (Inr s)"
  shows "length (nestedSample s) = Nobjects s" and "length (logLikelihood s) = Nobjects s"
    and "length (logWeightOfPosteriorSample s) = length (posteriorSample s)"
    and "length (logLikelihoodOfPosteriorSample s) = length (posteriorSample s)"
    and "Nobjects s = Nobjects c"
proof -
  from assms obtain sh b where lh: "loopHead env args (initialise env c) sh"
    and it: "iteration env args sh = Some (Inr (b, s))"
    by (rule nestedLoop_last)
  from loopHead_live [OF lh] iteration_live [OF it]
  show "length (nestedSample s) = Nobjects s" and "length (logLikelihood s) = Nobjects s"
    and "Nobjects s = Nobjects c"
    by (simp_all add: initialise_live)
  from iteration_posterior(1-3) [OF it]
  show "length (logWeightOfPosteriorSample s) = length (posteriorSample s)"
    and "length (logLikelihoodOfPosteriorSample s) = length (posteriorSample s)"
    by (simp_all add: recordWorst_posterior_lengths)
qed

lemma iteration_of_beforeDraw:
  assumes "beforeDraw env args s = Some (Inr (i, j, s2))"
  shows "newPointIsFound env args j s2 \<Longrightarrow> \<exists>s'. iteration env args s = Some (Inr (False, s'))"
    and "\<not> newPointIsFound env args j s2 \<Longrightarrow>
           \<exists>w. iteration env args s
             = Some (Inr (True, s2\<lparr> nestedSamplingShouldContinue := False,
                                    cerr := cerr s2 @ [CantFindPoint, StoppingPrematurely],
                                    world := w \<rparr>))"
proof -
  obtain f p l w where d: "drawWithConstraint env s2 (nestedSample s2) (Nclusters s2) (clusterIndices s2)
             (clusterSizes s2) (nestedSample s2 ! j) 0 (maxNdrawAttempts args) = ((f, p, l), w)"
    by (metis prod.exhaust)
  have dr: "drawAndReplace env args i j s2 = (if \<not> f then
          (True, s2\<lparr> nestedSamplingShouldContinue := False,
                    cerr := cerr s2 @ [CantFindPoint, StoppingPrematurely],
                    world := w \<rparr>) else (False, snd (drawAndReplace env args i j s2)))"
    by (simp add: drawAndReplace_def d Let_def)
  have it: "iteration env args s = Some (Inr (drawAndReplace env args i j s2))"
    using assms by (simp add: iteration_def)
  have f: "newPointIsFound env args j s2 = f" by (simp add: newPointIsFound_def d)
  show "newPointIsFound env args j s2 \<Longrightarrow> \<exists>s'. iteration env args s = Some (Inr (False, s'))"
    unfolding it f by (subst dr) simp
  show "\<not> newPointIsFound env args j s2 \<Longrightarrow>
           \<exists>w. iteration env args s
             = Some (Inr (True, s2\<lparr> nestedSamplingShouldContinue := False,
                                    cerr := cerr s2 @ [CantFindPoint, StoppingPrematurely],
                                    world := w \<rparr>))"
    unfolding it f by (subst dr) (simp, blast)
qed


lemma iteration_break_live:
  assumes "iteration env args s = Some (Inr (True, s'))"
  shows "nestedSample s' = nestedSample s" and "logLikelihood s' = logLikelihood s"
    and "\<exists>p. cerr s' = cerr s @ p @ [CantFindPoint, StoppingPrematurely]"
    and "logWidthInPriorMass s' = logWidthInPriorMass s"
    and "logCumulatedPriorMass s' = logCumulatedPriorMass s"
    and "logRemainingPriorMass s' = logRemainingPriorMass s"
proof -
  from assms obtain j s2 n idx sz w c where
    s2: "s2 = (meanLiveEvidence (recordWorst s))
            \<lparr> Nclusters := n, clusterIndices := idx, clusterSizes := sz, cerr := cerr s @ c, world := w \<rparr>"
    and dr: "drawAndReplace env args (snd (minCoeff (logLikelihood s))) j s2 = (True, s')"
    by (rule iteration_Inr)
  from dr have "\<exists>w'. s' = s2\<lparr> nestedSamplingShouldContinue := False,
               cerr := cerr s2 @ [CantFindPoint, StoppingPrematurely], world := w' \<rparr>"
  proof (cases rule: drawAndReplace_cases)
    case (Break w)
    from Break(2) show ?thesis by (rule exI)
  next
    case (Replace p l w)
    from Replace(1) show ?thesis by simp
  qed
  then obtain w' where s': "s' = s2\<lparr> nestedSamplingShouldContinue := False,
               cerr := cerr s2 @ [CantFindPoint, StoppingPrematurely], world := w' \<rparr>"
    by (elim exE)
  show "nestedSample s' = nestedSample s" and "logLikelihood s' = logLikelihood s"
    and "logWidthInPriorMass s' = logWidthInPriorMass s"
    and "logCumulatedPriorMass s' = logCumulatedPriorMass s"
    and "logRemainingPriorMass s' = logRemainingPriorMass s"
    by (simp_all add: s' s2 meanLiveEvidence_live recordWorst_live)
  have "cerr s' = cerr s @ c @ [CantFindPoint, StoppingPrematurely]"
    by (simp add: s' s2)
  then show "\<exists>p. cerr s' = cerr s @ p @ [CantFindPoint, StoppingPrematurely]" by (rule exI)
qed

lemma pre_draw_counts:
  "Nobjects (printProgress (updateClustering env args s)) = Nobjects s"
  "Niterations (printProgress (updateClustering env args s)) = Niterations s"
proof -
  from updateClustering_frame [of env args s]
  obtain n idx sz w where uc: "updateClustering env args s
      = s\<lparr> Nclusters := n, clusterIndices := idx, clusterSizes := sz, world := w \<rparr>"
    by (elim exE)
  from printProgress_frame [of "updateClustering env args s"]
  obtain c where pp: "printProgress (updateClustering env args s)
      = (updateClustering env args s)\<lparr> cerr := cerr (updateClustering env args s) @ c \<rparr>"
    by (elim exE)
  show "Nobjects (printProgress (updateClustering env args s)) = Nobjects s"
    by (subst pp) (simp add: uc)
  show "Niterations (printProgress (updateClustering env args s)) = Niterations s"
    by (subst pp) (simp add: uc)
qed

lemma beforeDraw_single:
  assumes "logLikelihood s \<noteq> []" and "NiterationsWithSameClustering args \<noteq> 0"
    and "Nobjects s \<le> 1"
  shows "beforeDraw env args s
     = Some (Inr (snd (minCoeff (logLikelihood s)), 0,
                  printProgress (updateClustering env args (meanLiveEvidence (recordWorst s)))))"
  using assms
  by (simp add: beforeDraw_def chooseStart_def Let_def pre_draw_counts
        meanLiveEvidence_live recordWorst_live)

lemma iteration_continue:
  assumes "iteration env args s = Some (Inr (False, s'))"
  shows "nestedSamplingShouldContinue s'
     = (exp (logMeanLiveEvidence s' - logEvidence s') > maxRatioOfRemainderToActualEvidence args)"
proof -
  from assms obtain j s2 n idx sz w c where
    s2: "s2 = (meanLiveEvidence (recordWorst s))
            \<lparr> Nclusters := n, clusterIndices := idx, clusterSizes := sz, cerr := cerr s @ c, world := w \<rparr>"
    and dr: "drawAndReplace env args (snd (minCoeff (logLikelihood s))) j s2 = (False, s')"
    by (rule iteration_Inr)
  have r2: "ratioOfRemainderToActualEvidence s2 = exp (logMeanLiveEvidence s2 - logEvidence s2)"
    by (simp add: s2) (simp add: meanLiveEvidence_def Let_def)
  from dr show ?thesis
  proof (cases rule: drawAndReplace_cases)
    case (Break w)
    from Break(1) show ?thesis by simp
  next
    case (Replace p l w)
    show ?thesis by (simp add: Replace(3) r2)
  qed
qed

lemma example_found:
  "newPointIsFound exampleEnvironment exampleArguments j s = (Niterations s < 2)"
  by (auto simp add: newPointIsFound_def exampleEnvironment_def exampleArguments_def)

lemma example_step:
  assumes "Nobjects s = 1" and "logLikelihood s \<noteq> []"
  shows "\<exists>s'. iteration exampleEnvironment exampleArguments s
                = Some (Inr (\<not> Niterations s < 2, s'))"
proof -
  have k: "NiterationsWithSameClustering exampleArguments \<noteq> 0"
    by (simp add: exampleArguments_def)
  have n: "Nobjects s \<le> 1" using assms(1) by simp
  note bd = beforeDraw_single [OF assms(2) k n, of exampleEnvironment]
  have f: "newPointIsFound exampleEnvironment exampleArguments 0
             (printProgress (updateClustering exampleEnvironment exampleArguments
                (meanLiveEvidence (recordWorst s)))) = (Niterations s < 2)"
    by (simp add: example_found pre_draw_counts meanLiveEvidence_live recordWorst_live)
  show ?thesis
  proof (cases "Niterations s < 2")
    case True
    with iteration_of_beforeDraw(1) [OF bd] f show ?thesis by simp
  next
    case False
    with iteration_of_beforeDraw(2) [OF bd] f show ?thesis by auto
  qed
qed

lemma example_continue:
  "iteration exampleEnvironment exampleArguments s = Some (Inr (False, s'))
     \<Longrightarrow> nestedSamplingShouldContinue s'"
  by (simp add: iteration_continue exampleArguments_def)

lemma exampleStart_live: "Nobjects exampleStart = 1" "logLikelihood exampleStart \<noteq> []"
  "Niterations exampleStart = 0"
  by (simp_all add: exampleStart_eq NestedSampler_def)

lemma example_run:
  obtains s1 s2 s3 where
    "iteration exampleEnvironment exampleArguments exampleStart = Some (Inr (False, s1))"
    "iteration exampleEnvironment exampleArguments s1 = Some (Inr (False, s2))"
    "iteration exampleEnvironment exampleArguments s2 = Some (Inr (True, s3))"
    "loopHead exampleEnvironment exampleArguments exampleStart s1"
    "loopHead exampleEnvironment exampleArguments exampleStart s2"
    "Niterations s1 = 1" "Niterations s2 = 2" "Nobjects s2 = 1" "logLikelihood s2 \<noteq> []"
proof -
  from example_step [OF exampleStart_live(1,2)] obtain s1 where
    i0: "iteration exampleEnvironment exampleArguments exampleStart = Some (Inr (False, s1))"
    by (auto simp: exampleStart_live)
  note l0 = iteration_live [OF i0]
  have n1: "Nobjects s1 = 1" and ne1: "logLikelihood s1 \<noteq> []" and t1: "Niterations s1 = 1"
    using l0 exampleStart_live by auto
  have h1: "loopHead exampleEnvironment exampleArguments exampleStart s1"
    using loopHead.later [OF loopHead.first i0 example_continue [OF i0]] .
  from example_step [OF n1 ne1] obtain s2 where
    i1: "iteration exampleEnvironment exampleArguments s1 = Some (Inr (False, s2))"
    by (auto simp: t1)
  note l1 = iteration_live [OF i1]
  have n2: "Nobjects s2 = 1" and ne2: "logLikelihood s2 \<noteq> []" and t2: "Niterations s2 = 2"
    using l1 n1 ne1 t1 by auto
  have h2: "loopHead exampleEnvironment exampleArguments exampleStart s2"
    using loopHead.later [OF h1 i1 example_continue [OF i1]] .
  from example_step [OF n2 ne2] obtain s3 where
    i2: "iteration exampleEnvironment exampleArguments s2 = Some (Inr (True, s3))"
    by (auto simp: t2)
  from i0 i1 i2 h1 h2 t1 t2 n2 ne2 show thesis by (rule that)
qed

lemma example_exit:
  obtains s2 s3 where
    "loopHead exampleEnvironment exampleArguments
       (initialise exampleEnvironment (NestedSampler exampleEnvironment False 1 0)) s2"
    "iteration exampleEnvironment exampleArguments s2 = Some (Inr (True, s3))"
    "nestedLoop exampleEnvironment exampleArguments
       (initialise exampleEnvironment (NestedSampler exampleEnvironment False 1 0)) = Some (Inr s3)"
    "run exampleEnvironment exampleArguments (NestedSampler exampleEnvironment False 1 0)
       = Some (Inr (finalise exampleEnvironment s3))"
    "Niterations s2 = 2" "Nobjects s2 = 1" "logLikelihood s2 \<noteq> []"
proof -
  from example_run obtain s1 s2 s3 where
    i2: "iteration exampleEnvironment exampleArguments s2 = Some (Inr (True, s3))"
    and h2: "loopHead exampleEnvironment exampleArguments exampleStart s2"
    and c: "Niterations s2 = 2" "Nobjects s2 = 1" "logLikelihood s2 \<noteq> []"
    by blast
  have l: "nestedLoop exampleEnvironment exampleArguments exampleStart = Some (Inr s3)"
    using nestedLoop_loopHead [OF h2] nestedLoop_break [OF i2] by simp
  then have r: "run exampleEnvironment exampleArguments (NestedSampler exampleEnvironment False 1 0)
       = Some (Inr (finalise exampleEnvironment s3))"
    by (simp add: run_def exampleStart_def)
  from h2 i2 l r c show thesis unfolding exampleStart_def by (rule that)
qed

text \<open>
  C3. Whenever \<^verbatim>\<open>run\<close> returns, whether the loop ended by its stopping criterion or by
  the failed draw, the finalisation has appended every live point of the state \<open>s\<close> in
  which the loop ended to the three posterior arrays: the columns of the live sample, the
  live log-likelihoods, and the log-weights \<open>logWidthInPriorMass s + logLikelihood s ! i\<close>.
  \<open>logEvidenceError\<close> is \<open>sqrt (\<bar>informationGain\<bar> / Nobjects)\<close> and \<open>logEvidence\<close> is
  replaced by \<open>logExpSum logMeanLiveEvidence logEvidence\<close>.
\<close>

theorem finalisation:
  assumes "run env args c = Some (Inr r)"
  shows "\<exists>s. nestedLoop env args (initialise env c) = Some (Inr s)
           \<and> length (nestedSample s) = Nobjects c \<and> length (logLikelihood s) = Nobjects c
           \<and> posteriorSample r = posteriorSample s @ nestedSample s
           \<and> logLikelihoodOfPosteriorSample r = logLikelihoodOfPosteriorSample s @ logLikelihood s
           \<and> logWeightOfPosteriorSample r
               = logWeightOfPosteriorSample s
                 @ map (\<lambda>l. logWidthInPriorMass s + l) (logLikelihood s)
           \<and> logEvidenceError r = sqrt (\<bar>informationGain s\<bar> / real (Nobjects c))
           \<and> logEvidence r = logExpSum (logMeanLiveEvidence s) (logEvidence s)"
proof -
  from assms obtain s where l: "nestedLoop env args (initialise env c) = Some (Inr s)"
    and r: "r = finalise env s" by (rule run_Inr)
  note sh = loop_exit_shape [OF l]
  from finalise_fields(1-5) [OF sh(1-4), of env] l sh(1,2,5) show ?thesis
    unfolding r by (intro exI [of _ s]) simp
qed

theorem finalisation_witness:
  "\<exists>r s. run exampleEnvironment exampleArguments (NestedSampler exampleEnvironment False 1 0)
           = Some (Inr r)
         \<and> nestedLoop exampleEnvironment exampleArguments
              (initialise exampleEnvironment (NestedSampler exampleEnvironment False 1 0))
             = Some (Inr s)
         \<and> length (nestedSample s) = 1 \<and> length (logLikelihood s) = 1
         \<and> posteriorSample r = posteriorSample s @ nestedSample s
         \<and> logLikelihoodOfPosteriorSample r = logLikelihoodOfPosteriorSample s @ logLikelihood s
         \<and> logWeightOfPosteriorSample r
             = logWeightOfPosteriorSample s
               @ map (\<lambda>l. logWidthInPriorMass s + l) (logLikelihood s)
         \<and> logEvidenceError r = sqrt (\<bar>informationGain s\<bar> / 1)
         \<and> logEvidence r = logExpSum (logMeanLiveEvidence s) (logEvidence s)"
proof -
  from example_exit obtain s3 where
    r: "run exampleEnvironment exampleArguments (NestedSampler exampleEnvironment False 1 0)
       = Some (Inr (finalise exampleEnvironment s3))" by blast
  from finalisation [OF r] obtain s where
    "nestedLoop exampleEnvironment exampleArguments
              (initialise exampleEnvironment (NestedSampler exampleEnvironment False 1 0))
             = Some (Inr s)
     \<and> length (nestedSample s) = Nobjects (NestedSampler exampleEnvironment False 1 0)
     \<and> length (logLikelihood s) = Nobjects (NestedSampler exampleEnvironment False 1 0)
     \<and> posteriorSample (finalise exampleEnvironment s3) = posteriorSample s @ nestedSample s
     \<and> logLikelihoodOfPosteriorSample (finalise exampleEnvironment s3)
         = logLikelihoodOfPosteriorSample s @ logLikelihood s
     \<and> logWeightOfPosteriorSample (finalise exampleEnvironment s3)
             = logWeightOfPosteriorSample s
               @ map (\<lambda>l. logWidthInPriorMass s + l) (logLikelihood s)
     \<and> logEvidenceError (finalise exampleEnvironment s3)
         = sqrt (\<bar>informationGain s\<bar> / real (Nobjects (NestedSampler exampleEnvironment False 1 0)))
     \<and> logEvidence (finalise exampleEnvironment s3)
         = logExpSum (logMeanLiveEvidence s) (logEvidence s)"
    by (elim exE)
  then show ?thesis using r
    by (intro exI [of _ "finalise exampleEnvironment s3"] exI [of _ s])
       (simp add: NestedSampler_def)
qed

section \<open>Premature termination\<close>

text \<open>
  C4. If in some iteration of a run \<^verbatim>\<open>drawWithConstraint\<close> returns false, the iteration
  takes the \<^verbatim>\<open>break\<close>: the loop and \<^verbatim>\<open>run\<close> return (no error, no further iteration), the
  live sample and its log-likelihoods are those the iteration started with, the two
  warning lines are on the diagnostic stream, and the finalisation is done on that state:
  the records of the earlier iterations, the record of the worst point of this iteration
  and the live points make up the posterior arrays, and the evidence outputs are
  computed.
\<close>

theorem draw_failure:
  assumes "loopHead env args (initialise env c) s"
      and "beforeDraw env args s = Some (Inr (i, j, s2))"
      and "\<not> newPointIsFound env args j s2"
  shows "\<exists>s'. iteration env args s = Some (Inr (True, s'))
           \<and> nestedLoop env args (initialise env c) = Some (Inr s')
           \<and> run env args c = Some (Inr (finalise env s'))
           \<and> nestedSample s' = nestedSample s \<and> logLikelihood s' = logLikelihood s
           \<and> (\<exists>p q. cerr (finalise env s')
                      = cerr s @ p @ [CantFindPoint, StoppingPrematurely] @ q)
           \<and> posteriorSample (finalise env s')
               = take (Niterations s) (posteriorSample s) @ [nestedSample s ! i] @ nestedSample s
           \<and> logLikelihoodOfPosteriorSample (finalise env s')
               = take (Niterations s) (logLikelihoodOfPosteriorSample s)
                 @ [Min (set (logLikelihood s))] @ logLikelihood s
           \<and> logWeightOfPosteriorSample (finalise env s')
               = take (Niterations s) (logWeightOfPosteriorSample s)
                 @ [logWidthInPriorMass s + Min (set (logLikelihood s))]
                 @ map (\<lambda>l. logWidthInPriorMass s + l) (logLikelihood s)
           \<and> logEvidenceError (finalise env s') = sqrt (\<bar>informationGain s'\<bar> / real (Nobjects c))
           \<and> logEvidence (finalise env s') = logExpSum (logMeanLiveEvidence s') (logEvidence s')"
proof -
  from iteration_of_beforeDraw(2) [OF assms(2,3)] obtain s' where
    it: "iteration env args s = Some (Inr (True, s'))" by blast
  have i: "i = snd (minCoeff (logLikelihood s))"
    using assms(2) by (elim beforeDraw_Inr)
  have l: "nestedLoop env args (initialise env c) = Some (Inr s')"
    using nestedLoop_loopHead [OF assms(1)] nestedLoop_break [OF it] by simp
  then have r: "run env args c = Some (Inr (finalise env s'))" by (simp add: run_def)
  note sh = loop_exit_shape [OF l]
  note fin = finalise_fields [OF sh(1-4), of env]
  note bl = iteration_break_live [OF it]
  note po = loopHead_posterior [OF assms(1) initialise_live(3)]
  note ip = iteration_posterior [OF it]
  note rw = recordWorst_posterior [OF ip(4)]
  from bl(3) obtain p where ce1: "cerr s' = cerr s @ p @ [CantFindPoint, StoppingPrematurely]"
    by (elim exE)
  from fin(6) obtain q where ce2: "cerr (finalise env s') = cerr s' @ q"
    by (elim exE)
  have "cerr (finalise env s') = cerr s @ p @ [CantFindPoint, StoppingPrematurely] @ q"
    by (simp add: ce1 ce2)
  then have ce: "\<exists>p q. cerr (finalise env s')
                      = cerr s @ p @ [CantFindPoint, StoppingPrematurely] @ q"
    by (intro exI)
  have 1: "posteriorSample (finalise env s')
               = take (Niterations s) (posteriorSample s) @ [nestedSample s ! i] @ nestedSample s"
    using fin(1) ip(1) rw(1) po bl(1) i by simp
  have 2: "logLikelihoodOfPosteriorSample (finalise env s')
               = take (Niterations s) (logLikelihoodOfPosteriorSample s)
                 @ [Min (set (logLikelihood s))] @ logLikelihood s"
    using fin(3) ip(2) rw(2) po bl(2) by simp
  have 3: "logWeightOfPosteriorSample (finalise env s')
               = take (Niterations s) (logWeightOfPosteriorSample s)
                 @ [logWidthInPriorMass s + Min (set (logLikelihood s))]
                 @ map (\<lambda>l. logWidthInPriorMass s + l) (logLikelihood s)"
    using fin(2) ip(3) rw(3) po bl(2,4) by simp
  show ?thesis
    using it l r bl(1,2) ce 1 2 3 fin(4,5) sh(5) by (intro exI [of _ s'] conjI) simp_all
qed

theorem draw_failure_witness:
  "\<exists>s i j s2 s'.
       loopHead exampleEnvironment exampleArguments
         (initialise exampleEnvironment (NestedSampler exampleEnvironment False 1 0)) s
     \<and> beforeDraw exampleEnvironment exampleArguments s = Some (Inr (i, j, s2))
     \<and> \<not> newPointIsFound exampleEnvironment exampleArguments j s2
     \<and> iteration exampleEnvironment exampleArguments s = Some (Inr (True, s'))
     \<and> run exampleEnvironment exampleArguments (NestedSampler exampleEnvironment False 1 0)
         = Some (Inr (finalise exampleEnvironment s'))
     \<and> nestedSample s' = nestedSample s \<and> logLikelihood s' = logLikelihood s
     \<and> (\<exists>p q. cerr (finalise exampleEnvironment s')
                = cerr s @ p @ [CantFindPoint, StoppingPrematurely] @ q)
     \<and> posteriorSample (finalise exampleEnvironment s')
         = take (Niterations s) (posteriorSample s) @ [nestedSample s ! i] @ nestedSample s"
proof -
  from example_exit obtain s2 where
    lh: "loopHead exampleEnvironment exampleArguments
       (initialise exampleEnvironment (NestedSampler exampleEnvironment False 1 0)) s2"
    and c: "Niterations s2 = 2" "Nobjects s2 = 1" "logLikelihood s2 \<noteq> []"
    by blast
  have k: "NiterationsWithSameClustering exampleArguments \<noteq> 0"
    by (simp add: exampleArguments_def)
  have n: "Nobjects s2 \<le> 1" using c(2) by simp
  define p where "p = printProgress (updateClustering exampleEnvironment exampleArguments
                (meanLiveEvidence (recordWorst s2)))"
  have bd: "beforeDraw exampleEnvironment exampleArguments s2
              = Some (Inr (snd (minCoeff (logLikelihood s2)), 0, p))"
    unfolding p_def by (rule beforeDraw_single [OF c(3) k n])
  have nf: "\<not> newPointIsFound exampleEnvironment exampleArguments 0 p"
    by (simp add: example_found p_def pre_draw_counts meanLiveEvidence_live recordWorst_live c(1))
  from draw_failure [OF lh bd nf] obtain s' where
    "iteration exampleEnvironment exampleArguments s2 = Some (Inr (True, s'))
     \<and> run exampleEnvironment exampleArguments (NestedSampler exampleEnvironment False 1 0)
         = Some (Inr (finalise exampleEnvironment s'))
     \<and> nestedSample s' = nestedSample s2 \<and> logLikelihood s' = logLikelihood s2
     \<and> (\<exists>p q. cerr (finalise exampleEnvironment s')
                = cerr s2 @ p @ [CantFindPoint, StoppingPrematurely] @ q)
     \<and> posteriorSample (finalise exampleEnvironment s')
         = take (Niterations s2) (posteriorSample s2)
           @ [nestedSample s2 ! snd (minCoeff (logLikelihood s2))] @ nestedSample s2"
    by blast
  with lh bd nf show ?thesis
    by (intro exI [of _ s2] exI [of _ "snd (minCoeff (logLikelihood s2))"] exI [of _ 0]
          exI [of _ p] exI [of _ s']) simp
qed

text \<open>
  The instance with two live points: the worst one is at index 1, the first index drawn
  for the starting point is 1 again, and the second one drawn is 0. With no attempt
  allowed the first iteration takes the \<^verbatim>\<open>break\<close>.
\<close>

lemma twoPointStart_eq:
  "twoPointStart = (NestedSampler descendingEnvironment False 2 0)
     \<lparr> startTime := 0, nestedSample := [[0], [1]], logLikelihood := [0, - 1],
       logWidthInPriorMass := ln (1 - exp (- 1 / 2)),
       logCumulatedPriorMass := logExpSum lowest (ln (1 - exp (- 1 / 2))),
       Nclusters := 0, clusterIndices := [0, 0], clusterSizes := [],
       nestedSamplingShouldContinue := True, Niterations := 0, world := 1 \<rparr>"
  by (simp add: twoPointStart_def initialise_def descendingEnvironment_def exampleEnvironment_def
       NestedSampler_def setBlock_def Let_def numeral_2_eq_2)

lemma twoPoint_other_index:
  "drawOtherIndex (randomInt descendingEnvironment) 2 (Suc 0) (Suc 0) = Some (0, 3)"
  apply (subst drawOtherIndex.simps)
  apply (simp add: discreteUniform_def descendingEnvironment_def exampleEnvironment_def)
  apply (subst drawOtherIndex.simps)
  apply (simp add: discreteUniform_def)
  done

lemma twoPoint_break:
  "\<exists>s'. iteration descendingEnvironment (exampleArguments\<lparr> maxNdrawAttempts := 0 \<rparr>) twoPointStart
     = Some (Inr (True, s'))"
  unfolding twoPointStart_eq
  by (simp add: iteration_def beforeDraw_def NestedSampler_def chooseStart_def drawAndReplace_def
       printProgress_def updateClustering_def meanLiveEvidence_def recordWorst_def twoPoint_other_index
       exampleArguments_def minCoeff_def crem_def Let_def)
     (simp add: descendingEnvironment_def exampleEnvironment_def)


text \<open>
  C10. If an iteration of a run, at iteration count \<open>t\<close>, ends the loop by the failed
  draw, the worst live point of that iteration is in the returned posterior arrays
  twice. The worst live point is the one at the index \<open>i\<close> that \<^verbatim>\<open>minCoeff\<close> returns, and
  its log-likelihood is the minimum of the live log-likelihoods. The iteration leaves
  the live sample and its log-likelihoods as they were. In the posterior arrays the point
  is at index \<open>t\<close>, stored before the draw, and at index \<open>t + 1 + i\<close>, inside the live
  points appended by the finalisation: the same column of the live sample and the same
  log-likelihood, the minimum, are at both indices.
\<close>

theorem worst_point_twice:
  assumes "loopHead env args (initialise env c) s"
      and "iteration env args s = Some (Inr (True, s'))"
  shows "run env args c = Some (Inr (finalise env s'))
       \<and> snd (minCoeff (logLikelihood s)) < Nobjects c
       \<and> logLikelihood s ! snd (minCoeff (logLikelihood s)) = Min (set (logLikelihood s))
       \<and> nestedSample s' = nestedSample s \<and> logLikelihood s' = logLikelihood s
       \<and> Niterations s + 1 + snd (minCoeff (logLikelihood s))
           < length (posteriorSample (finalise env s'))
       \<and> Niterations s + 1 + snd (minCoeff (logLikelihood s))
           < length (logLikelihoodOfPosteriorSample (finalise env s'))
       \<and> Niterations s \<noteq> Niterations s + 1 + snd (minCoeff (logLikelihood s))
       \<and> posteriorSample (finalise env s') ! Niterations s
           = nestedSample s ! snd (minCoeff (logLikelihood s))
       \<and> posteriorSample (finalise env s') ! (Niterations s + 1 + snd (minCoeff (logLikelihood s)))
           = nestedSample s ! snd (minCoeff (logLikelihood s))
       \<and> logLikelihoodOfPosteriorSample (finalise env s') ! Niterations s
           = logLikelihood s ! snd (minCoeff (logLikelihood s))
       \<and> logLikelihoodOfPosteriorSample (finalise env s')
             ! (Niterations s + 1 + snd (minCoeff (logLikelihood s)))
           = logLikelihood s ! snd (minCoeff (logLikelihood s))
       \<and> logLikelihoodOfPosteriorSample (finalise env s') ! Niterations s
           = Min (set (logLikelihood s))
       \<and> logLikelihoodOfPosteriorSample (finalise env s')
             ! (Niterations s + 1 + snd (minCoeff (logLikelihood s)))
           = Min (set (logLikelihood s))"
proof -
  define i where "i = snd (minCoeff (logLikelihood s))"
  define t where "t = Niterations s"
  have l: "nestedLoop env args (initialise env c) = Some (Inr s')"
    using nestedLoop_loopHead [OF assms(1)] nestedLoop_break [OF assms(2)] by simp
  then have r: "run env args c = Some (Inr (finalise env s'))" by (simp add: run_def)
  note sh = loop_exit_shape [OF l]
  note fin = finalise_fields [OF sh(1-4), of env]
  note bl = iteration_break_live [OF assms(2)]
  note po = loopHead_posterior [OF assms(1) initialise_live(3)]
  note ip = iteration_posterior [OF assms(2)]
  note rw = recordWorst_posterior [OF ip(4)]
  have iN: "i < Nobjects c" and li: "logLikelihood s ! i = Min (set (logLikelihood s))"
    using minCoeff_props(1,2) [OF ip(4)] minCoeff_Min [OF ip(4)] sh(2,5) bl(2)
    by (simp_all add: i_def)
  have lenS: "length (nestedSample s) = Nobjects c" and lenL: "length (logLikelihood s) = Nobjects c"
    using sh(1,2,5) bl(1,2) by simp_all
  have lt: "length (take t (posteriorSample s)) = t"
    and ll: "length (take t (logLikelihoodOfPosteriorSample s)) = t"
    using po by (simp_all add: t_def)
  have P: "posteriorSample (finalise env s')
               = take t (posteriorSample s) @ [nestedSample s ! i] @ nestedSample s"
    using fin(1) ip(1) rw(1) po bl(1) by (simp add: i_def t_def)
  have L: "logLikelihoodOfPosteriorSample (finalise env s')
               = take t (logLikelihoodOfPosteriorSample s) @ [logLikelihood s ! i] @ logLikelihood s"
    using fin(3) ip(2) rw(2) po bl(2) li by (simp add: t_def)
  have 1: "t + 1 + i < length (posteriorSample (finalise env s'))"
    and 2: "t + 1 + i < length (logLikelihoodOfPosteriorSample (finalise env s'))"
    using iN lenS lenL lt ll unfolding P L by simp_all
  have 3: "posteriorSample (finalise env s') ! t = nestedSample s ! i"
    unfolding P using lt by (simp add: nth_append)
  have 4: "posteriorSample (finalise env s') ! (t + 1 + i) = nestedSample s ! i"
    unfolding P using lt by (simp add: nth_append)
  have 5: "logLikelihoodOfPosteriorSample (finalise env s') ! t = logLikelihood s ! i"
    unfolding L using ll by (simp add: nth_append)
  have 6: "logLikelihoodOfPosteriorSample (finalise env s') ! (t + 1 + i) = logLikelihood s ! i"
    unfolding L using ll by (simp add: nth_append)
  have 7: "logLikelihoodOfPosteriorSample (finalise env s') ! t = Min (set (logLikelihood s))"
    and 8: "logLikelihoodOfPosteriorSample (finalise env s') ! (t + 1 + i)
              = Min (set (logLikelihood s))"
    using 5 6 li by simp_all
  have 9: "t \<noteq> t + 1 + i" by simp
  from r iN li bl(1,2) 1 2 9 3 4 5 6 7 8 show ?thesis
    unfolding i_def t_def by (intro conjI)
qed

theorem worst_point_twice_witness:
  "(\<exists>s s'.
       loopHead exampleEnvironment exampleArguments
         (initialise exampleEnvironment (NestedSampler exampleEnvironment False 1 0)) s
     \<and> iteration exampleEnvironment exampleArguments s = Some (Inr (True, s'))
     \<and> Niterations s = 2 \<and> snd (minCoeff (logLikelihood s)) = 0
     \<and> run exampleEnvironment exampleArguments (NestedSampler exampleEnvironment False 1 0)
         = Some (Inr (finalise exampleEnvironment s'))
     \<and> length (posteriorSample (finalise exampleEnvironment s')) > 3
     \<and> posteriorSample (finalise exampleEnvironment s') ! 2 = nestedSample s ! 0
     \<and> posteriorSample (finalise exampleEnvironment s') ! 3 = nestedSample s ! 0
     \<and> logLikelihoodOfPosteriorSample (finalise exampleEnvironment s') ! 2
         = Min (set (logLikelihood s))
     \<and> logLikelihoodOfPosteriorSample (finalise exampleEnvironment s') ! 3
         = Min (set (logLikelihood s)))
   \<and> (\<exists>s'.
       loopHead descendingEnvironment (exampleArguments\<lparr> maxNdrawAttempts := 0 \<rparr>)
         (initialise descendingEnvironment (NestedSampler descendingEnvironment False 2 0))
         twoPointStart
     \<and> iteration descendingEnvironment (exampleArguments\<lparr> maxNdrawAttempts := 0 \<rparr>)
           twoPointStart = Some (Inr (True, s'))
     \<and> nestedSample twoPointStart = [[0], [1]] \<and> logLikelihood twoPointStart = [0, - 1]
     \<and> Niterations twoPointStart = 0
     \<and> snd (minCoeff (logLikelihood twoPointStart)) = 1
     \<and> run descendingEnvironment (exampleArguments\<lparr> maxNdrawAttempts := 0 \<rparr>)
           (NestedSampler descendingEnvironment False 2 0)
         = Some (Inr (finalise descendingEnvironment s'))
     \<and> nestedSample s' = [[0], [1]] \<and> logLikelihood s' = [0, - 1]
     \<and> length (posteriorSample (finalise descendingEnvironment s')) > 2
     \<and> posteriorSample (finalise descendingEnvironment s') ! 0 = [1]
     \<and> posteriorSample (finalise descendingEnvironment s') ! 2 = [1]
     \<and> logLikelihoodOfPosteriorSample (finalise descendingEnvironment s') ! 0 = - 1
     \<and> logLikelihoodOfPosteriorSample (finalise descendingEnvironment s') ! 2 = - 1)"
proof -
  have A: "\<exists>s s'.
       loopHead exampleEnvironment exampleArguments
         (initialise exampleEnvironment (NestedSampler exampleEnvironment False 1 0)) s
     \<and> iteration exampleEnvironment exampleArguments s = Some (Inr (True, s'))
     \<and> Niterations s = 2 \<and> snd (minCoeff (logLikelihood s)) = 0
     \<and> run exampleEnvironment exampleArguments (NestedSampler exampleEnvironment False 1 0)
         = Some (Inr (finalise exampleEnvironment s'))
     \<and> length (posteriorSample (finalise exampleEnvironment s')) > 3
     \<and> posteriorSample (finalise exampleEnvironment s') ! 2 = nestedSample s ! 0
     \<and> posteriorSample (finalise exampleEnvironment s') ! 3 = nestedSample s ! 0
     \<and> logLikelihoodOfPosteriorSample (finalise exampleEnvironment s') ! 2
         = Min (set (logLikelihood s))
     \<and> logLikelihoodOfPosteriorSample (finalise exampleEnvironment s') ! 3
         = Min (set (logLikelihood s))"
  proof -
    from example_exit obtain s2 s3 where
      lh: "loopHead exampleEnvironment exampleArguments
         (initialise exampleEnvironment (NestedSampler exampleEnvironment False 1 0)) s2"
      and it: "iteration exampleEnvironment exampleArguments s2 = Some (Inr (True, s3))"
      and c: "Niterations s2 = 2" "Nobjects s2 = 1" "logLikelihood s2 \<noteq> []"
      by blast
    note w = worst_point_twice [OF lh it]
    have "snd (minCoeff (logLikelihood s2)) < 1"
      using w by (simp add: NestedSampler_def)
    then have i: "snd (minCoeff (logLikelihood s2)) = 0" by simp
    from w lh it c(1) show ?thesis
      unfolding i by (intro exI [of _ s2] exI [of _ s3]) (simp add: i numeral_3_eq_3)
  qed
  have B: "\<exists>s'.
       loopHead descendingEnvironment (exampleArguments\<lparr> maxNdrawAttempts := 0 \<rparr>)
         (initialise descendingEnvironment (NestedSampler descendingEnvironment False 2 0))
         twoPointStart
     \<and> iteration descendingEnvironment (exampleArguments\<lparr> maxNdrawAttempts := 0 \<rparr>)
           twoPointStart = Some (Inr (True, s'))
     \<and> nestedSample twoPointStart = [[0], [1]] \<and> logLikelihood twoPointStart = [0, - 1]
     \<and> Niterations twoPointStart = 0
     \<and> snd (minCoeff (logLikelihood twoPointStart)) = 1
     \<and> run descendingEnvironment (exampleArguments\<lparr> maxNdrawAttempts := 0 \<rparr>)
           (NestedSampler descendingEnvironment False 2 0)
         = Some (Inr (finalise descendingEnvironment s'))
     \<and> nestedSample s' = [[0], [1]] \<and> logLikelihood s' = [0, - 1]
     \<and> length (posteriorSample (finalise descendingEnvironment s')) > 2
     \<and> posteriorSample (finalise descendingEnvironment s') ! 0 = [1]
     \<and> posteriorSample (finalise descendingEnvironment s') ! 2 = [1]
     \<and> logLikelihoodOfPosteriorSample (finalise descendingEnvironment s') ! 0 = - 1
     \<and> logLikelihoodOfPosteriorSample (finalise descendingEnvironment s') ! 2 = - 1"
  proof -
    from twoPoint_break obtain s' where
      it: "iteration descendingEnvironment (exampleArguments\<lparr> maxNdrawAttempts := 0 \<rparr>)
             twoPointStart = Some (Inr (True, s'))"
      by (elim exE)
    have lh: "loopHead descendingEnvironment (exampleArguments\<lparr> maxNdrawAttempts := 0 \<rparr>)
         (initialise descendingEnvironment (NestedSampler descendingEnvironment False 2 0))
         twoPointStart"
      unfolding twoPointStart_def by (rule loopHead.first)
    have f: "nestedSample twoPointStart = [[0], [1]]" "logLikelihood twoPointStart = [0, - 1]"
      "Niterations twoPointStart = 0"
      unfolding twoPointStart_eq by simp_all
    have i: "snd (minCoeff (logLikelihood twoPointStart)) = 1"
      unfolding f by (simp add: minCoeff_def)
    have m: "Min (set (logLikelihood twoPointStart)) = - 1"
      unfolding f by simp
    note w = worst_point_twice [OF lh [unfolded twoPointStart_def] it [unfolded twoPointStart_def],
                folded twoPointStart_def,
                unfolded i f m]
    from w lh it f i show ?thesis
      by (intro exI [of _ s']) (simp add: numeral_2_eq_2)
  qed
  from A B show ?thesis by (rule conjI)
qed

section \<open>The order of the posterior log-likelihoods\<close>

lemma iteration_records_minimum:
  assumes H: "\<forall>s2 sample n idx sz p l0 att p' l' w'.
           drawWithConstraint env s2 sample n idx sz p l0 att = ((True, p', l'), w')
           \<longrightarrow> worstLiveLogLikelihood s2 < l'"
    and it: "iteration env args s = Some (Inr (b, s'))"
    and le: "Niterations s \<le> length (logLikelihoodOfPosteriorSample s)"
  shows "logLikelihoodOfPosteriorSample s'
           = take (Niterations s) (logLikelihoodOfPosteriorSample s) @ [Min (set (logLikelihood s))]"
    and "\<forall>l\<in>set (logLikelihood s'). Min (set (logLikelihood s)) \<le> l"
proof -
  note ip = iteration_posterior [OF it]
  note rw = recordWorst_posterior [OF ip(4)]
  show "logLikelihoodOfPosteriorSample s'
           = take (Niterations s) (logLikelihoodOfPosteriorSample s) @ [Min (set (logLikelihood s))]"
    using ip(2) rw(2) le by simp
  from it obtain j s2 n idx sz w c where
    s2: "s2 = (meanLiveEvidence (recordWorst s))
            \<lparr> Nclusters := n, clusterIndices := idx, clusterSizes := sz, cerr := cerr s @ c, world := w \<rparr>"
    and dr: "drawAndReplace env args (snd (minCoeff (logLikelihood s))) j s2 = (b, s')"
    by (rule iteration_Inr)
  have w2: "worstLiveLogLikelihood s2 = Min (set (logLikelihood s))"
    and l2: "logLikelihood s2 = logLikelihood s"
    using rw(4) by (simp_all add: s2 meanLiveEvidence_live recordWorst_live)
  have old: "\<forall>l\<in>set (logLikelihood s). Min (set (logLikelihood s)) \<le> l" by simp
  from dr show "\<forall>l\<in>set (logLikelihood s'). Min (set (logLikelihood s)) \<le> l"
  proof (cases rule: drawAndReplace_cases)
    case (Break w)
    have "logLikelihood s' = logLikelihood s" by (simp add: Break(2) l2)
    with old show ?thesis by simp
  next
    case (Replace p l w)
    from H Replace(2) have "worstLiveLogLikelihood s2 < l" by blast
    then have lt: "Min (set (logLikelihood s)) \<le> l" using w2 by simp
    have "logLikelihood s' = (logLikelihood s)[snd (minCoeff (logLikelihood s)) := l]"
      by (simp add: Replace(3) l2)
    moreover have "set ((logLikelihood s)[snd (minCoeff (logLikelihood s)) := l])
                     \<subseteq> insert l (set (logLikelihood s))"
      by (rule set_update_subset_insert)
    ultimately show ?thesis using lt old by auto
  qed
qed

lemma loopHead_sorted:
  assumes H: "\<forall>s2 sample n idx sz p l0 att p' l' w'.
           drawWithConstraint env s2 sample n idx sz p l0 att = ((True, p', l'), w')
           \<longrightarrow> worstLiveLogLikelihood s2 < l'"
    and lh: "loopHead env args s0 s" and z: "Niterations s0 = 0"
  shows "sorted (take (Niterations s) (logLikelihoodOfPosteriorSample s))
       \<and> (\<forall>x\<in>set (take (Niterations s) (logLikelihoodOfPosteriorSample s)).
             \<forall>l\<in>set (logLikelihood s). x \<le> l)"
  using lh
proof (induction rule: loopHead.induct)
  case first
  show ?case by (simp add: z)
next
  case (later s s')
  define rec where "rec = take (Niterations s) (logLikelihoodOfPosteriorSample s)"
  define m where "m = Min (set (logLikelihood s))"
  from loopHead_posterior [OF later(1) z]
  have le: "Niterations s \<le> length (logLikelihoodOfPosteriorSample s)" by simp
  note rm = iteration_records_minimum [OF H later(2) le]
  have ne: "logLikelihood s \<noteq> []" using iteration_posterior(4) [OF later(2)] .
  have min: "m \<in> set (logLikelihood s)" unfolding m_def using ne by simp
  have t: "Niterations s' = Niterations s + 1" using iteration_live(6) [OF later(2)] by simp
  have lr: "length rec = Niterations s" using le by (simp add: rec_def)
  have post: "take (Niterations s') (logLikelihoodOfPosteriorSample s') = rec @ [m]"
    using rm(1) lr by (simp add: t rec_def m_def)
  from later.IH have srec: "sorted rec" and below: "\<forall>x\<in>set rec. \<forall>l\<in>set (logLikelihood s). x \<le> l"
    by (simp_all add: rec_def)
  have bm: "\<forall>x\<in>set rec. x \<le> m" using below min by blast
  have "sorted (rec @ [m])" using srec bm by (simp add: sorted_append)
  moreover have "\<forall>x\<in>set (rec @ [m]). \<forall>l\<in>set (logLikelihood s'). x \<le> l"
    using bm rm(2) unfolding m_def [symmetric] by (auto intro: order_trans)
  ultimately show ?case unfolding post by simp
qed

text \<open>
  C5. Suppose every successful constrained draw returns a log-likelihood above
  \<open>worstLiveLogLikelihood\<close>. Then at every loop head of a run the log-likelihoods stored
  so far are in non-decreasing order; every iteration stores the minimum of the live
  log-likelihoods, and no live log-likelihood after the iteration is below that minimum;
  when the loop has ended all stored log-likelihoods are in non-decreasing order; and in
  the result of \<^verbatim>\<open>run\<close> so is everything before the live points appended at the end.
\<close>

theorem posterior_nondecreasing:
  assumes "\<forall>s2 sample n idx sz p l0 att p' l' w'.
           drawWithConstraint env s2 sample n idx sz p l0 att = ((True, p', l'), w')
           \<longrightarrow> worstLiveLogLikelihood s2 < l'"
  shows "(loopHead env args (initialise env c) s \<longrightarrow>
            sorted (take (Niterations s) (logLikelihoodOfPosteriorSample s)))
       \<and> (loopHead env args (initialise env c) s \<and> iteration env args s = Some (Inr (b, s')) \<longrightarrow>
            logLikelihoodOfPosteriorSample s'
              = take (Niterations s) (logLikelihoodOfPosteriorSample s)
                @ [Min (set (logLikelihood s))]
            \<and> (\<forall>l\<in>set (logLikelihood s'). Min (set (logLikelihood s)) \<le> l)
            \<and> sorted (logLikelihoodOfPosteriorSample s'))
       \<and> (nestedLoop env args (initialise env c) = Some (Inr e) \<longrightarrow>
            sorted (logLikelihoodOfPosteriorSample e))
       \<and> (run env args c = Some (Inr r) \<longrightarrow>
            sorted (take (length (logLikelihoodOfPosteriorSample r) - Nobjects c)
                      (logLikelihoodOfPosteriorSample r)))"
proof -
  have step: "logLikelihoodOfPosteriorSample s'
              = take (Niterations s) (logLikelihoodOfPosteriorSample s)
                @ [Min (set (logLikelihood s))]
            \<and> (\<forall>l\<in>set (logLikelihood s'). Min (set (logLikelihood s)) \<le> l)
            \<and> sorted (logLikelihoodOfPosteriorSample s')"
    if lh: "loopHead env args (initialise env c) s"
      and it: "iteration env args s = Some (Inr (b, s'))" for s b s'
  proof -
    from loopHead_posterior [OF lh initialise_live(3)]
    have le: "Niterations s \<le> length (logLikelihoodOfPosteriorSample s)" by simp
    note rm = iteration_records_minimum [OF assms it le]
    note inv = loopHead_sorted [OF assms lh initialise_live(3)]
    have "Min (set (logLikelihood s)) \<in> set (logLikelihood s)"
      using iteration_posterior(4) [OF it] by simp
    with inv have "\<forall>x\<in>set (take (Niterations s) (logLikelihoodOfPosteriorSample s)).
             x \<le> Min (set (logLikelihood s))" by blast
    with inv have "sorted (take (Niterations s) (logLikelihoodOfPosteriorSample s)
                @ [Min (set (logLikelihood s))])" by (simp add: sorted_append)
    with rm show ?thesis by simp
  qed
  have exit: "sorted (logLikelihoodOfPosteriorSample e)"
    if l: "nestedLoop env args (initialise env c) = Some (Inr e)" for e
  proof -
    from l obtain sh b where "loopHead env args (initialise env c) sh"
      "iteration env args sh = Some (Inr (b, e))" by (rule nestedLoop_last)
    from step [OF this] show ?thesis by (elim conjE)
  qed
  have result: "sorted (take (length (logLikelihoodOfPosteriorSample r) - Nobjects c)
                      (logLikelihoodOfPosteriorSample r))"
    if r: "run env args c = Some (Inr r)"
  proof -
    from r obtain e where l: "nestedLoop env args (initialise env c) = Some (Inr e)"
      and re: "r = finalise env e" by (rule run_Inr)
    note sh = loop_exit_shape [OF l]
    have "logLikelihoodOfPosteriorSample r = logLikelihoodOfPosteriorSample e @ logLikelihood e"
      unfolding re by (rule finalise_fields(3) [OF sh(1-4)])
    then show ?thesis using exit [OF l] sh(2,5) by simp
  qed
  show ?thesis
    using loopHead_sorted [OF assms _ initialise_live(3)] step exit result by blast
qed

theorem posterior_nondecreasing_witness:
  "\<exists>e. nestedLoop exampleEnvironment exampleArguments
          (initialise exampleEnvironment (NestedSampler exampleEnvironment False 1 0))
        = Some (Inr e)
      \<and> length (logLikelihoodOfPosteriorSample e) = 3
      \<and> sorted (logLikelihoodOfPosteriorSample e)"
proof -
  have H: "\<forall>s2 sample n idx sz p l0 att p' l' w'.
       drawWithConstraint exampleEnvironment s2 sample n idx sz p l0 att = ((True, p', l'), w')
       \<longrightarrow> worstLiveLogLikelihood s2 < l'"
    by (simp add: exampleEnvironment_def)
  from example_exit obtain s2 s3 where
    it: "iteration exampleEnvironment exampleArguments s2 = Some (Inr (True, s3))"
    and l: "nestedLoop exampleEnvironment exampleArguments
       (initialise exampleEnvironment (NestedSampler exampleEnvironment False 1 0)) = Some (Inr s3)"
    and c: "Niterations s2 = 2"
    by blast
  have len: "length (logLikelihoodOfPosteriorSample s3) = 3"
    using iteration_posterior(2) [OF it] by (simp add: recordWorst_posterior_lengths c)
  from posterior_nondecreasing [OF H, where args = exampleArguments
         and c = "NestedSampler exampleEnvironment False 1 0" and e = s3] l
  have "sorted (logLikelihoodOfPosteriorSample s3)" by blast
  with l len show ?thesis by blast
qed

section \<open>The state before the first iteration\<close>

lemma fold_dimensions:
  "fold (\<lambda>p n. n + fst p) ps (k::nat) = k + sum_list (map fst ps)"
  by (induction ps arbitrary: k) auto

lemma setBlock_column:
  assumes "j < length m" and "length (m ! j) = D" and "b + n \<le> D"
  shows "setBlock b n f m ! j = take b (m ! j) @ map (\<lambda>r. f r j) [0..<n] @ drop (b + n) (m ! j)"
    and "length (setBlock b n f m ! j) = D"
  using assms by (simp_all add: setBlock_def)

lemma drawPriors_columns:
  assumes "\<forall>j<length m. length (m ! j) = D" and "b + sum_list (map fst ps) = D"
    and "j < length m"
  shows "fst (drawPriors ps b N m w) ! j
           = take b (m ! j)
             @ concat (map (\<lambda>(n, f). map (\<lambda>r. f r j) [0..<n]) (priorBlocks ps N w))"
  using assms
proof (induction ps arbitrary: b m w)
  case Nil
  then show ?case by simp
next
  case (Cons p ps)
  obtain f w' where d: "snd p N w = (f, w')" by (cases "snd p N w")
  define m' where "m' = setBlock b (fst p) f m"
  have bn: "b + fst p \<le> D" using Cons.prems(2) by simp
  have len': "\<forall>j<length m'. length (m' ! j) = D"
    using Cons.prems(1) bn by (simp add: m'_def setBlock_column(2))
  have sum': "(b + fst p) + sum_list (map fst ps) = D" using Cons.prems(2) by simp
  have j': "j < length m'" using Cons.prems(3) by (simp add: m'_def)
  have col: "m' ! j = take b (m ! j) @ map (\<lambda>r. f r j) [0..<fst p] @ drop (b + fst p) (m ! j)"
    unfolding m'_def using Cons.prems(1,3) bn by (simp add: setBlock_column(1))
  have lb: "length (take b (m ! j)) = b" using Cons.prems(1,3) bn by simp
  have tk: "take (b + fst p) (m' ! j) = take b (m ! j) @ map (\<lambda>r. f r j) [0..<fst p]"
    unfolding col using lb by simp
  from Cons.IH [OF len' sum' j', of w'] tk
  show ?case by (simp add: d m'_def)
qed

lemma initialise_fields:
  "logWidthInPriorMass (initialise env c) = ln (1 - exp (- 1 / real (Nobjects c)))"
  "logCumulatedPriorMass (initialise env c)
     = logExpSum (logCumulatedPriorMass c) (ln (1 - exp (- 1 / real (Nobjects c))))"
  "logRemainingPriorMass (initialise env c) = logRemainingPriorMass c"
  "logEvidence (initialise env c) = logEvidence c"
  "informationGain (initialise env c) = informationGain c"
  "Nclusters (initialise env c) = 0"
  "clusterIndices (initialise env c) = replicate (Nobjects c) 0"
  "clusterSizes (initialise env c) = []"
  "posteriorSample (initialise env c) = posteriorSample c"
  "logLikelihoodOfPosteriorSample (initialise env c) = logLikelihoodOfPosteriorSample c"
  "logWeightOfPosteriorSample (initialise env c) = logWeightOfPosteriorSample c"
  "nestedSample (initialise env c)
     = fst (drawPriors (priors env) 0 (Nobjects c)
             (replicate (Nobjects c) (replicate (Ndimensions c) 0)) (snd (clock env (world c))))"
  "logLikelihood (initialise env c)
     = map (\<lambda>i. logValue env (nestedSample (initialise env c) ! i)) [0..<Nobjects c]"
  by (simp_all add: initialise_def Let_def split: prod.splits)

lemma logExpSum_gt: "x < logExpSum x y"
proof -
  have "exp x < exp x + exp y" by simp
  then have "ln (exp x) < ln (exp x + exp y)"
    by (subst ln_less_cancel_iff) (simp_all add: add_pos_pos)
  then show ?thesis by (simp add: logExpSum_def)
qed

text \<open>
  C7, as the code has it. After the initialisation of \<^verbatim>\<open>run\<close> on a newly constructed
  sampler and before the first iteration: the live sample has \<open>N\<close> columns, column \<open>j\<close>
  being the concatenation of column \<open>j\<close> of the arrays the priors have filled, in the
  order of the priors; \<open>logLikelihood ! j\<close> is the log-likelihood of column \<open>j\<close>;
  \<open>logWidthInPriorMass = ln (1 - exp (- 1 / N))\<close>; \<open>logEvidence\<close> is the sentinel \<open>lowest\<close>;
  \<open>informationGain = 0\<close>; \<open>Niterations = 0\<close>; all \<open>N\<close> cluster indices are 0. But
  \<open>logCumulatedPriorMass\<close> is no longer the sentinel: line 180 has already added the first
  width to it, so it is \<open>logExpSum lowest (ln (1 - exp (- 1 / N)))\<close>. And \<open>Nclusters\<close> is 0
  (line 185); it becomes 1 only inside the first iteration.
\<close>

theorem initial_state:
  "let s = initialise env (NestedSampler env printOnTheScreen' N w);
       blocks = priorBlocks (priors env) N (snd (clock env w))
   in length (nestedSample s) = N \<and> length (logLikelihood s) = N
    \<and> (\<forall>j<N. nestedSample s ! j = concat (map (\<lambda>(n, f). map (\<lambda>r. f r j) [0..<n]) blocks)
             \<and> logLikelihood s ! j = logValue env (nestedSample s ! j))
    \<and> logWidthInPriorMass s = ln (1 - exp (- 1 / real N))
    \<and> logEvidence s = lowest
    \<and> informationGain s = 0
    \<and> logCumulatedPriorMass s = logExpSum lowest (ln (1 - exp (- 1 / real N)))
    \<and> Niterations s = 0
    \<and> Nclusters s = 0
    \<and> clusterIndices s = replicate N 0"
proof -
  define c where "c = NestedSampler env printOnTheScreen' N w"
  define s where "s = initialise env c"
  define blocks where "blocks = priorBlocks (priors env) N (snd (clock env w))"
  have c: "Nobjects c = N" "Ndimensions c = sum_list (map fst (priors env))" "world c = w"
    "logCumulatedPriorMass c = lowest" "logEvidence c = lowest" "informationGain c = 0"
    by (simp_all add: c_def NestedSampler_def fold_dimensions)
  have len: "length (nestedSample s) = N" "length (logLikelihood s) = N"
    by (simp_all add: s_def initialise_live c)
  have col: "nestedSample s ! j = concat (map (\<lambda>(n, f). map (\<lambda>r. f r j) [0..<n]) blocks)"
    if "j < N" for j
  proof -
    have "fst (drawPriors (priors env) 0 N (replicate N (replicate (Ndimensions c) 0))
                 (snd (clock env w))) ! j
            = take 0 (replicate N (replicate (Ndimensions c) 0) ! j)
              @ concat (map (\<lambda>(n, f). map (\<lambda>r. f r j) [0..<n]) blocks)"
      unfolding blocks_def
      by (rule drawPriors_columns [where D = "Ndimensions c"]) (simp_all add: c that)
    then show ?thesis by (simp add: s_def initialise_fields c)
  qed
  have ll: "logLikelihood s ! j = logValue env (nestedSample s ! j)" if "j < N" for j
    using that by (simp add: s_def initialise_fields(13) c)
  have rest: "logWidthInPriorMass s = ln (1 - exp (- 1 / real N))"
    "logEvidence s = lowest" "informationGain s = 0"
    "logCumulatedPriorMass s = logExpSum lowest (ln (1 - exp (- 1 / real N)))"
    "Niterations s = 0" "Nclusters s = 0" "clusterIndices s = replicate N 0"
    by (simp_all add: s_def initialise_fields initialise_live c)
  show ?thesis
    unfolding Let_def c_def [symmetric] s_def [symmetric] blocks_def [symmetric]
    using len col ll rest by simp
qed

theorem initial_state_witness:
  "length (nestedSample exampleStart) = 1 \<and> length (logLikelihood exampleStart) = 1
    \<and> nestedSample exampleStart ! 0 = [0]
    \<and> logLikelihood exampleStart ! 0 = 0
    \<and> logWidthInPriorMass exampleStart = ln (1 - exp (- 1))
    \<and> logEvidence exampleStart = lowest
    \<and> informationGain exampleStart = 0
    \<and> logCumulatedPriorMass exampleStart = logExpSum lowest (ln (1 - exp (- 1)))
    \<and> Niterations exampleStart = 0
    \<and> Nclusters exampleStart = 0
    \<and> clusterIndices exampleStart = [0]"
  using initial_state [of exampleEnvironment False 1 0]
  unfolding exampleStart_def [symmetric] Let_def
  by (simp add: exampleEnvironment_def)

text \<open>
  C7 as stated, with \<open>Nclusters = 1\<close> and \<open>logCumulatedPriorMass\<close> equal to the sentinel,
  fails on the small instance.
\<close>

theorem initial_state_counterexample:
  "Nclusters (initialise exampleEnvironment (NestedSampler exampleEnvironment False 1 0)) \<noteq> 1
   \<and> logCumulatedPriorMass (initialise exampleEnvironment (NestedSampler exampleEnvironment False 1 0))
       \<noteq> lowest"
proof -
  have "logCumulatedPriorMass (initialise exampleEnvironment (NestedSampler exampleEnvironment False 1 0))
          = logExpSum lowest (ln (1 - exp (- 1)))"
    by (simp add: initialise_fields NestedSampler_def)
  then show ?thesis
    using logExpSum_gt [of lowest "ln (1 - exp (- 1))"] by (simp add: initialise_fields)
qed

section \<open>The prior mass\<close>

lemma exp_logExpSum: "exp (logExpSum a b) = exp a + exp b"
  by (simp add: logExpSum_def add_pos_pos)

lemma iteration_prior_mass:
  assumes "iteration env args s = Some (Inr (False, s'))"
  shows "logWidthInPriorMass s' = logWidthInPriorMass s - 1 / real (Nobjects s)
       \<and> logCumulatedPriorMass s'
           = logExpSum (logCumulatedPriorMass s) (logWidthInPriorMass s')
       \<and> logRemainingPriorMass s' = ln (1 - exp (logCumulatedPriorMass s'))"
proof -
  from assms obtain j s2 n idx sz w c where
    s2: "s2 = (meanLiveEvidence (recordWorst s))
            \<lparr> Nclusters := n, clusterIndices := idx, clusterSizes := sz, cerr := cerr s @ c, world := w \<rparr>"
    and dr: "drawAndReplace env args (snd (minCoeff (logLikelihood s))) j s2 = (False, s')"
    by (rule iteration_Inr)
  have k: "logWidthInPriorMass s2 = logWidthInPriorMass s" "Nobjects s2 = Nobjects s"
    "logCumulatedPriorMass s2 = logCumulatedPriorMass s"
    by (simp_all add: s2 meanLiveEvidence_live recordWorst_live)
  from dr show ?thesis
  proof (cases rule: drawAndReplace_cases)
    case (Break w)
    from Break(1) show ?thesis by simp
  next
    case (Replace p l w)
    show ?thesis by (simp add: Replace(3) k)
  qed
qed

lemma prior_mass_step:
  fixes q :: real and k :: nat
  assumes "ew = (1 - q) * q ^ k" and "ec = l + 1 - q ^ (k + 1)"
  shows "ew * q = (1 - q) * q ^ (k + 1)" and "ec + ew * q = l + 1 - q ^ (k + 1 + 1)"
  unfolding assms by (simp_all add: algebra_simps)

lemma loopHead_prior_mass:
  assumes "loopHead env args s0 s" and "s0 = initialise env (NestedSampler env pr N w)"
    and "0 < N"
  shows "exp (logWidthInPriorMass s) = (1 - exp (- 1 / real N)) * exp (- 1 / real N) ^ Niterations s
       \<and> exp (logCumulatedPriorMass s)
           = exp lowest + 1 - exp (- 1 / real N) ^ (Niterations s + 1)
       \<and> Nobjects s = N"
  using assms(1)
proof (induction rule: loopHead.induct)
  case first
  have pos: "0 < 1 - exp (- 1 / real N)" using assms(3) by simp
  have "exp (logWidthInPriorMass s0) = 1 - exp (- 1 / real N)"
    unfolding assms(2) using pos by (simp add: initialise_fields NestedSampler_def)
  moreover have "exp (logCumulatedPriorMass s0) = exp lowest + (1 - exp (- 1 / real N))"
    unfolding assms(2) using pos
    by (simp add: initialise_fields exp_logExpSum NestedSampler_def)
  moreover have "Niterations s0 = 0" "Nobjects s0 = N"
    unfolding assms(2) by (simp_all add: initialise_live NestedSampler_def)
  ultimately show ?case by simp
next
  case (later s s')
  note pm = iteration_prior_mass [OF later(2)]
  note lv = iteration_live [OF later(2)]
  define q where "q = exp (- 1 / real N)"
  from later.IH have w: "exp (logWidthInPriorMass s) = (1 - q) * q ^ Niterations s"
    and cm: "exp (logCumulatedPriorMass s) = exp lowest + 1 - q ^ (Niterations s + 1)"
    and n: "Nobjects s = N" by (simp_all add: q_def)
  have t: "Niterations s' = Niterations s + 1" using lv(6) by simp
  have ew: "exp (logWidthInPriorMass s') = exp (logWidthInPriorMass s) * q"
    using pm unfolding n q_def by (simp add: exp_diff exp_minus divide_inverse)
  have ec: "exp (logCumulatedPriorMass s')
              = exp (logCumulatedPriorMass s) + exp (logWidthInPriorMass s) * q"
    using pm ew by (simp add: exp_logExpSum)
  from prior_mass_step [OF w cm] ew ec lv(1) n
  show ?case unfolding t q_def [symmetric] by simp
qed

lemma lowest_bound: "2 ^ 31 < - lowest"
proof -
  have a: "(1::real) \<le> 2 - 1 / 2 ^ 52" by simp
  have b: "(2::real) ^ 31 < 2 ^ 1023" by (rule power_strict_increasing) simp_all
  have "(2::real) ^ 1023 = 1 * 2 ^ 1023" by simp
  also have "\<dots> \<le> (2 - 1 / 2 ^ 52) * 2 ^ 1023"
    by (rule mult_right_mono [OF a]) simp
  finally have "(2::real) ^ 31 < (2 - 1 / 2 ^ 52) * 2 ^ 1023" using b by linarith
  then show ?thesis unfolding lowest_def by linarith
qed

lemma cumulated_below_one:
  assumes "0 < N" and "k + 1 \<le> 2 ^ 31"
  shows "exp lowest + 1 - exp (- 1 / real N) ^ (k + 1) < 1"
proof -
  have "real (k + 1) \<le> real (2 ^ 31)" using assms(2) by (rule of_nat_mono)
  then have kb: "real (k + 1) \<le> 2 ^ 31" by simp
  have "real (k + 1) * (1 / real N) \<le> real (k + 1) * 1"
    by (rule mult_left_mono) (use assms(1) in \<open>simp_all add: field_simps\<close>)
  with kb lowest_bound have "lowest < real (k + 1) * (- 1 / real N)" by simp
  then have "exp lowest < exp (real (k + 1) * (- 1 / real N))" by simp
  also have "\<dots> = exp (- 1 / real N) ^ (k + 1)" by (rule exp_of_nat_mult)
  finally show ?thesis by simp
qed

lemma failedFirst_iteration:
  "iteration exampleEnvironment (exampleArguments\<lparr> maxNdrawAttempts := 0 \<rparr>) exampleStart
     = Some (Inr (True, failedFirst))"
  unfolding failedFirst_def exampleStart_eq
  by (simp add: iteration_def beforeDraw_def NestedSampler_def chooseStart_def drawAndReplace_def
       printProgress_def updateClustering_def meanLiveEvidence_def recordWorst_def
       exampleEnvironment_def exampleArguments_def minCoeff_def crem_def Let_def)

text \<open>
  C6, as the code has it. Take a run on a newly constructed sampler of \<open>N\<close> live points;
  its first iteration uses the width \<open>ln (1 - exp (- 1 / N))\<close>. An iteration whose draw
  fails leaves \<open>logWidthInPriorMass\<close>, \<open>logCumulatedPriorMass\<close> and
  \<open>logRemainingPriorMass\<close> as they were. An iteration whose draw succeeds lowers
  \<open>logWidthInPriorMass\<close> by exactly \<open>1 / N\<close>, then sets \<open>logCumulatedPriorMass\<close> to
  \<open>logExpSum\<close> of its old value and the new width, and \<open>logRemainingPriorMass\<close> to
  \<open>ln (1 - exp logCumulatedPriorMass)\<close>; after it
  \<open>exp logCumulatedPriorMass + exp logRemainingPriorMass = 1\<close>, exactly in real arithmetic,
  as long as the iteration count is in the range of a 32-bit \<^verbatim>\<open>int\<close>.
\<close>

theorem prior_mass_update:
  assumes "loopHead env args (initialise env (NestedSampler env pr N w)) s"
      and "iteration env args s = Some (Inr (b, s'))"
      and "Niterations s' < 2 ^ 31"
  shows "logWidthInPriorMass (initialise env (NestedSampler env pr N w))
           = ln (1 - exp (- 1 / real N))
       \<and> (b \<longrightarrow> logWidthInPriorMass s' = logWidthInPriorMass s
                \<and> logCumulatedPriorMass s' = logCumulatedPriorMass s
                \<and> logRemainingPriorMass s' = logRemainingPriorMass s)
       \<and> (\<not> b \<longrightarrow> logWidthInPriorMass s' = logWidthInPriorMass s - 1 / real N
                \<and> logCumulatedPriorMass s'
                    = logExpSum (logCumulatedPriorMass s) (logWidthInPriorMass s')
                \<and> logRemainingPriorMass s' = ln (1 - exp (logCumulatedPriorMass s'))
                \<and> exp (logCumulatedPriorMass s') + exp (logRemainingPriorMass s') = 1)"
proof -
  define s0 where "s0 = initialise env (NestedSampler env pr N w)"
  have lh: "loopHead env args s0 s" using assms(1) by (simp add: s0_def)
  have w0: "logWidthInPriorMass s0 = ln (1 - exp (- 1 / real N))"
    by (simp add: s0_def initialise_fields NestedSampler_def)
  have N: "Nobjects s = N" "length (logLikelihood s) = N"
    using loopHead_live [OF lh] by (simp_all add: s0_def initialise_live NestedSampler_def)
  have "logLikelihood s \<noteq> []" using iteration_posterior(4) [OF assms(2)] .
  with N have pos: "0 < N" by (cases "logLikelihood s") auto
  have brk: "logWidthInPriorMass s' = logWidthInPriorMass s
                \<and> logCumulatedPriorMass s' = logCumulatedPriorMass s
                \<and> logRemainingPriorMass s' = logRemainingPriorMass s" if b
    using iteration_break_live(4-6) [of env args s s'] assms(2) that by simp
  have ok: "logWidthInPriorMass s' = logWidthInPriorMass s - 1 / real N
                \<and> logCumulatedPriorMass s'
                    = logExpSum (logCumulatedPriorMass s) (logWidthInPriorMass s')
                \<and> logRemainingPriorMass s' = ln (1 - exp (logCumulatedPriorMass s'))
                \<and> exp (logCumulatedPriorMass s') + exp (logRemainingPriorMass s') = 1" if "\<not> b"
  proof -
    from assms(2) that have it: "iteration env args s = Some (Inr (False, s'))" by simp
    note pm = iteration_prior_mass [OF it]
    define q where "q = exp (- 1 / real N)"
    from loopHead_prior_mass [OF lh s0_def pos]
    have w: "exp (logWidthInPriorMass s) = (1 - q) * q ^ Niterations s"
      and cm: "exp (logCumulatedPriorMass s) = exp lowest + 1 - q ^ (Niterations s + 1)"
      by (simp_all add: q_def)
    have t: "Niterations s' = Niterations s + 1" using iteration_live(6) [OF it] by simp
    have ew: "exp (logWidthInPriorMass s') = exp (logWidthInPriorMass s) * q"
      using pm unfolding N q_def by (simp add: exp_diff exp_minus divide_inverse)
    have ec: "exp (logCumulatedPriorMass s')
              = exp (logCumulatedPriorMass s) + exp (logWidthInPriorMass s) * q"
      using pm ew by (simp add: exp_logExpSum)
    have c': "exp (logCumulatedPriorMass s') = exp lowest + 1 - q ^ (Niterations s' + 1)"
      using prior_mass_step(2) [OF w cm] ec unfolding t by simp
    have "Niterations s' + 1 \<le> 2 ^ 31" using assms(3) by simp
    from cumulated_below_one [OF pos this]
    have lt1: "exp (logCumulatedPriorMass s') < 1" unfolding c' q_def .
    then have "exp (logRemainingPriorMass s') = 1 - exp (logCumulatedPriorMass s')"
      using pm by simp
    then have "exp (logCumulatedPriorMass s') + exp (logRemainingPriorMass s') = 1" by simp
    with pm N show ?thesis by simp
  qed
  from w0 brk ok show ?thesis unfolding s0_def by blast
qed

theorem prior_mass_update_witness:
  "\<exists>s'. iteration exampleEnvironment exampleArguments exampleStart = Some (Inr (False, s'))
      \<and> logWidthInPriorMass exampleStart = ln (1 - exp (- 1))
      \<and> logWidthInPriorMass s' = ln (1 - exp (- 1)) - 1
      \<and> logCumulatedPriorMass s'
          = logExpSum (logExpSum lowest (ln (1 - exp (- 1)))) (ln (1 - exp (- 1)) - 1)
      \<and> logRemainingPriorMass s' = ln (1 - exp (logCumulatedPriorMass s'))
      \<and> exp (logCumulatedPriorMass s') + exp (logRemainingPriorMass s') = 1"
proof -
  from example_first obtain s' where
    h: "iteration exampleEnvironment exampleArguments exampleStart = Some (Inr (False, s'))"
    by (elim exE)
  have lh: "loopHead exampleEnvironment exampleArguments
              (initialise exampleEnvironment (NestedSampler exampleEnvironment False 1 0))
              exampleStart"
    unfolding exampleStart_def by (rule loopHead.first)
  have t: "Niterations s' < 2 ^ 31"
    using iteration_live(6) [OF h] by (simp add: exampleStart_live)
  note u = prior_mass_update [OF lh h t, unfolded exampleStart_def [symmetric]]
  have w0: "logWidthInPriorMass exampleStart = ln (1 - exp (- 1))"
    and c0: "logCumulatedPriorMass exampleStart = logExpSum lowest (ln (1 - exp (- 1)))"
    by (simp_all add: exampleStart_eq)
  from u have x: "logWidthInPriorMass s' = logWidthInPriorMass exampleStart - 1 / real 1
      \<and> logCumulatedPriorMass s'
              = logExpSum (logCumulatedPriorMass exampleStart) (logWidthInPriorMass s')
      \<and> logRemainingPriorMass s' = ln (1 - exp (logCumulatedPriorMass s'))
      \<and> exp (logCumulatedPriorMass s') + exp (logRemainingPriorMass s') = 1"
    by blast
  then have a: "logWidthInPriorMass s' = logWidthInPriorMass exampleStart - 1 / real 1"
    and b: "logCumulatedPriorMass s'
              = logExpSum (logCumulatedPriorMass exampleStart) (logWidthInPriorMass s')"
    and c: "logRemainingPriorMass s' = ln (1 - exp (logCumulatedPriorMass s'))"
    and d: "exp (logCumulatedPriorMass s') + exp (logRemainingPriorMass s') = 1"
    by blast+
  have a': "logWidthInPriorMass s' = ln (1 - exp (- 1)) - 1" using a w0 by simp
  have b': "logCumulatedPriorMass s'
          = logExpSum (logExpSum lowest (ln (1 - exp (- 1)))) (ln (1 - exp (- 1)) - 1)"
    using b a' c0 by simp
  from h w0 a' b' c d show ?thesis by blast
qed

text \<open>
  C6 as stated, for every iteration, fails at an iteration whose draw fails: on the
  small instance with no attempt allowed the first iteration takes the \<^verbatim>\<open>break\<close>, the
  width is not lowered, and \<open>logRemainingPriorMass\<close> is still the 0 of the constructor, so
  the two masses do not add up to 1.
\<close>

theorem prior_mass_update_counterexample:
  "iteration exampleEnvironment (exampleArguments\<lparr> maxNdrawAttempts := 0 \<rparr>) exampleStart
     = Some (Inr (True, failedFirst))
   \<and> logWidthInPriorMass failedFirst
       \<noteq> logWidthInPriorMass exampleStart - 1 / real (Nobjects exampleStart)
   \<and> exp (logCumulatedPriorMass failedFirst) + exp (logRemainingPriorMass failedFirst) \<noteq> 1"
proof -
  have w: "logWidthInPriorMass failedFirst = logWidthInPriorMass exampleStart"
    and c: "logCumulatedPriorMass failedFirst = logExpSum lowest (ln (1 - exp (- 1)))"
    and r: "logRemainingPriorMass failedFirst = 0"
    and n: "Nobjects exampleStart = 1"
    by (simp_all add: failedFirst_def meanLiveEvidence_live recordWorst_live)
       (simp_all add: exampleStart_eq NestedSampler_def)
  have "0 < exp (logCumulatedPriorMass failedFirst)" by simp
  then have "exp (logCumulatedPriorMass failedFirst) + exp (logRemainingPriorMass failedFirst) \<noteq> 1"
    unfolding r by simp
  with failedFirst_iteration w n show ?thesis by simp
qed

section \<open>When the clusterer runs\<close>

lemma crem_zero_iff: "(crem (int n) b = 0) = (int n mod b = 0)"
proof (cases "n = 0")
  case True
  then show ?thesis by (simp add: crem_def)
next
  case False
  then have "crem (int n) b = int n mod \<bar>b\<bar>" by (simp add: crem_def)
  moreover have "(int n mod \<bar>b\<bar> = 0) = (int n mod b = 0)"
    by (simp add: mod_eq_0_iff_dvd)
  ultimately show ?thesis by simp
qed

lemma updateClustering_cases:
  "crem (int (Niterations s)) (NiterationsWithSameClustering args) = 0 \<Longrightarrow>
   int (Niterations s) < NinitialIterationsWithoutClustering args \<Longrightarrow>
     updateClustering env args s
       = s\<lparr> Nclusters := 1, clusterSizes := [int (Nobjects s)],
            clusterIndices := map (\<lambda>_. 0) (clusterIndices s) \<rparr>"
  "crem (int (Niterations s)) (NiterationsWithSameClustering args) \<noteq> 0 \<Longrightarrow>
     updateClustering env args s = s"
  "crem (int (Niterations s)) (NiterationsWithSameClustering args) = 0 \<Longrightarrow>
   \<not> int (Niterations s) < NinitialIterationsWithoutClustering args \<Longrightarrow>
     Nclusters (updateClustering env args s)
       = fst (fst (cluster env (nestedSample s) (clusterIndices s) (clusterSizes s)
                     (printOnTheScreen s) (world s)))
     \<and> clusterIndices (updateClustering env args s)
       = fst (snd (fst (cluster env (nestedSample s) (clusterIndices s) (clusterSizes s)
                     (printOnTheScreen s) (world s))))
     \<and> clusterSizes (updateClustering env args s)
       = snd (snd (fst (cluster env (nestedSample s) (clusterIndices s) (clusterSizes s)
                     (printOnTheScreen s) (world s))))"
  by (simp_all add: updateClustering_def split: prod.splits)

lemma updateClustering_other_clusterer:
  assumes "\<not> (crem (int (Niterations s)) (NiterationsWithSameClustering args) = 0
             \<and> \<not> int (Niterations s) < NinitialIterationsWithoutClustering args)"
  shows "updateClustering (env\<lparr> cluster := f \<rparr>) args s = updateClustering env args s"
  using assms by (auto simp add: updateClustering_def)

lemma beforeDraw_other_clusterer:
  assumes "\<not> (crem (int (Niterations s)) (NiterationsWithSameClustering args) = 0
             \<and> \<not> int (Niterations s) < NinitialIterationsWithoutClustering args)"
  shows "beforeDraw (env\<lparr> cluster := f \<rparr>) args s = beforeDraw env args s"
proof -
  have c: "chooseStart (env\<lparr> cluster := f \<rparr>) i s2 = chooseStart env i s2" for i s2
    by (simp add: chooseStart_def)
  have n: "Niterations (meanLiveEvidence (recordWorst s)) = Niterations s"
    by (simp add: meanLiveEvidence_live recordWorst_live)
  have u: "updateClustering (env\<lparr> cluster := f \<rparr>) args (meanLiveEvidence (recordWorst s))
             = updateClustering env args (meanLiveEvidence (recordWorst s))"
    by (rule updateClustering_other_clusterer) (use assms n in simp)
  show ?thesis by (simp add: beforeDraw_def c u)
qed

lemma iteration_other_clusterer:
  assumes "\<not> (crem (int (Niterations s)) (NiterationsWithSameClustering args) = 0
             \<and> \<not> int (Niterations s) < NinitialIterationsWithoutClustering args)"
  shows "iteration (env\<lparr> cluster := f \<rparr>) args s = iteration env args s"
proof -
  have d: "drawAndReplace (env\<lparr> cluster := f \<rparr>) args i j s2 = drawAndReplace env args i j s2"
    for i j s2 by (simp add: drawAndReplace_def)
  show ?thesis
    by (simp add: iteration_def beforeDraw_other_clusterer [OF assms] d
          split: option.splits sum.splits prod.splits)
qed

lemma beforeDraw_clusters:
  assumes "beforeDraw env args s = Some (Inr (i, j, s2))"
  shows "Nclusters s2 = Nclusters (updateClustering env args (meanLiveEvidence (recordWorst s)))"
    and "clusterIndices s2
           = clusterIndices (updateClustering env args (meanLiveEvidence (recordWorst s)))"
    and "clusterSizes s2
           = clusterSizes (updateClustering env args (meanLiveEvidence (recordWorst s)))"
proof -
  define u where "u = updateClustering env args (meanLiveEvidence (recordWorst s))"
  from assms have cs: "chooseStart env i (printProgress u) = Some (j, s2)"
    by (auto simp: beforeDraw_def Let_def u_def split: if_splits option.splits)
  from printProgress_frame [of u]
  obtain c where pp: "printProgress u = u\<lparr> cerr := cerr u @ c \<rparr>" by (elim exE)
  from chooseStart_frame [OF cs]
  obtain w' where s2: "s2 = (printProgress u)\<lparr> world := w' \<rparr>" by (elim exE)
  have "Nclusters s2 = Nclusters u \<and> clusterIndices s2 = clusterIndices u
        \<and> clusterSizes s2 = clusterSizes u"
    unfolding s2 by (subst pp)+ simp
  then show "Nclusters s2 = Nclusters (updateClustering env args (meanLiveEvidence (recordWorst s)))"
    and "clusterIndices s2
           = clusterIndices (updateClustering env args (meanLiveEvidence (recordWorst s)))"
    and "clusterSizes s2
           = clusterSizes (updateClustering env args (meanLiveEvidence (recordWorst s)))"
    by (simp_all add: u_def)
qed

lemma drawAndReplace_clusters:
  assumes "drawAndReplace env args i j s2 = (b, s')"
  shows "Nclusters s' = Nclusters s2 \<and> clusterIndices s' = clusterIndices s2
       \<and> clusterSizes s' = clusterSizes s2"
  using assms
proof (cases rule: drawAndReplace_cases)
  case (Break w)
  show ?thesis by (simp add: Break(2))
next
  case (Replace p l w)
  show ?thesis by (simp add: Replace(3))
qed

lemma loopHead_indices:
  assumes "loopHead env args s0 s" and "s0 = initialise env c"
  shows "int (Niterations s) < NinitialIterationsWithoutClustering args
           \<longrightarrow> clusterIndices s = replicate (Nobjects c) 0"
  using assms(1)
proof (induction rule: loopHead.induct)
  case first
  show ?case by (simp add: assms(2) initialise_fields)
next
  case (later s s')
  show ?case
  proof
    assume lt': "int (Niterations s') < NinitialIterationsWithoutClustering args"
    have t: "Niterations s' = Niterations s + 1" using iteration_live(6) [OF later(2)] by simp
    with lt' have lt: "int (Niterations s) < NinitialIterationsWithoutClustering args" by simp
    with later.IH have ci: "clusterIndices s = replicate (Nobjects c) 0" by simp
    from later(2) obtain i j s2 where bd: "beforeDraw env args s = Some (Inr (i, j, s2))"
      and dr: "drawAndReplace env args i j s2 = (False, s')"
      by (rule iteration_beforeDraw)
    define s1 where "s1 = meanLiveEvidence (recordWorst s)"
    have f1: "Niterations s1 = Niterations s" "clusterIndices s1 = clusterIndices s"
      by (simp_all add: s1_def meanLiveEvidence_live recordWorst_live)
    have "clusterIndices (updateClustering env args s1) = replicate (Nobjects c) 0"
    proof (cases "crem (int (Niterations s1)) (NiterationsWithSameClustering args) = 0")
      case True
      with lt f1 ci show ?thesis by (simp add: updateClustering_cases(1) map_replicate_const)
    next
      case False
      with f1 ci show ?thesis by (simp add: updateClustering_cases(2))
    qed
    with beforeDraw_clusters(2) [OF bd] drawAndReplace_clusters [OF dr]
    show "clusterIndices s' = replicate (Nobjects c) 0" by (simp add: s1_def)
  qed
qed

lemma example_step_any:
  assumes "Nobjects s = 1" and "logLikelihood s \<noteq> []"
    and "NiterationsWithSameClustering args \<noteq> 0"
  shows "beforeDraw exampleEnvironment args s
           = Some (Inr (snd (minCoeff (logLikelihood s)), 0,
                        printProgress (updateClustering exampleEnvironment args
                          (meanLiveEvidence (recordWorst s)))))"
    and "int (Niterations s) < maxNdrawAttempts args
           \<Longrightarrow> \<exists>s'. iteration exampleEnvironment args s = Some (Inr (False, s'))"
proof -
  have n: "Nobjects s \<le> 1" using assms(1) by simp
  show bd: "beforeDraw exampleEnvironment args s
           = Some (Inr (snd (minCoeff (logLikelihood s)), 0,
                        printProgress (updateClustering exampleEnvironment args
                          (meanLiveEvidence (recordWorst s)))))"
    by (rule beforeDraw_single [OF assms(2,3) n])
  have f: "newPointIsFound exampleEnvironment args 0
             (printProgress (updateClustering exampleEnvironment args
                (meanLiveEvidence (recordWorst s))))
             = (int (Niterations s) < maxNdrawAttempts args)"
  proof -
    have d: "fst (fst (drawWithConstraint exampleEnvironment p sample n indices sizes point l attempts))
               = (int (Niterations p) < attempts)" for p sample n indices sizes point l attempts
      by (simp add: exampleEnvironment_def)
    show ?thesis
      unfolding newPointIsFound_def d
      by (simp add: pre_draw_counts meanLiveEvidence_live recordWorst_live)
  qed
  show "int (Niterations s) < maxNdrawAttempts args
           \<Longrightarrow> \<exists>s'. iteration exampleEnvironment args s = Some (Inr (False, s'))"
    using iteration_of_beforeDraw(1) [OF bd] f by simp
qed

text \<open>
  C8. At a loop head of a run, let \<open>s2\<close> be the state in which the constrained draw is
  called. Unless \<open>Niterations mod NiterationsWithSameClustering = 0\<close> and
  \<open>Niterations \<ge> NinitialIterationsWithoutClustering\<close>, the clusterer is not invoked: the
  iteration does the same with any other clusterer \<open>f\<close> in its place. At a cadence
  iteration with \<open>Niterations < NinitialIterationsWithoutClustering\<close> the single cluster is
  forced: \<open>Nclusters = 1\<close>, all \<open>N\<close> cluster indices 0, one cluster size \<open>N\<close>. At an
  iteration off the cadence the assignment is the one the iteration started with. At the
  remaining iterations the assignment is what the clusterer returns.
\<close>

theorem clustering_cadence:
  assumes "loopHead env args (initialise env c) s"
      and "beforeDraw env args s = Some (Inr (i, j, s2))"
  shows "(\<not> (int (Niterations s) mod NiterationsWithSameClustering args = 0
            \<and> NinitialIterationsWithoutClustering args \<le> int (Niterations s))
          \<longrightarrow> beforeDraw (env\<lparr> cluster := f \<rparr>) args s = beforeDraw env args s
            \<and> iteration (env\<lparr> cluster := f \<rparr>) args s = iteration env args s)
       \<and> (int (Niterations s) mod NiterationsWithSameClustering args = 0
            \<and> int (Niterations s) < NinitialIterationsWithoutClustering args
          \<longrightarrow> Nclusters s2 = 1 \<and> clusterIndices s2 = replicate (Nobjects c) 0
            \<and> clusterSizes s2 = [int (Nobjects c)])
       \<and> (int (Niterations s) mod NiterationsWithSameClustering args \<noteq> 0
          \<longrightarrow> Nclusters s2 = Nclusters s \<and> clusterIndices s2 = clusterIndices s
            \<and> clusterSizes s2 = clusterSizes s)
       \<and> (int (Niterations s) mod NiterationsWithSameClustering args = 0
            \<and> NinitialIterationsWithoutClustering args \<le> int (Niterations s)
          \<longrightarrow> (Nclusters s2, clusterIndices s2, clusterSizes s2)
              = fst (cluster env (nestedSample s) (clusterIndices s) (clusterSizes s)
                       (printOnTheScreen s) (world s)))"
proof -
  define s1 where "s1 = meanLiveEvidence (recordWorst s)"
  define k where "k = NiterationsWithSameClustering args"
  define n0 where "n0 = NinitialIterationsWithoutClustering args"
  have f1: "Niterations s1 = Niterations s" "clusterIndices s1 = clusterIndices s"
    "clusterSizes s1 = clusterSizes s" "Nclusters s1 = Nclusters s" "Nobjects s1 = Nobjects s"
    "nestedSample s1 = nestedSample s" "printOnTheScreen s1 = printOnTheScreen s"
    "world s1 = world s"
    by (simp_all add: s1_def meanLiveEvidence_live recordWorst_live)
  note bc = beforeDraw_clusters [OF assms(2), folded s1_def]
  have N: "Nobjects s = Nobjects c"
    using loopHead_live [OF assms(1)] by (simp add: initialise_live)
  note ix = loopHead_indices [OF assms(1) refl]
  have cz: "(crem (int (Niterations s)) k = 0) = (int (Niterations s) mod k = 0)"
    by (rule crem_zero_iff)
  have A: "beforeDraw (env\<lparr> cluster := f \<rparr>) args s = beforeDraw env args s
            \<and> iteration (env\<lparr> cluster := f \<rparr>) args s = iteration env args s"
    if "\<not> (int (Niterations s) mod k = 0 \<and> n0 \<le> int (Niterations s))"
  proof -
    from that cz have "\<not> (crem (int (Niterations s)) (NiterationsWithSameClustering args) = 0
             \<and> \<not> int (Niterations s) < NinitialIterationsWithoutClustering args)"
      by (auto simp: k_def n0_def)
    from beforeDraw_other_clusterer [OF this] iteration_other_clusterer [OF this]
    show ?thesis by simp
  qed
  have B: "Nclusters s2 = 1 \<and> clusterIndices s2 = replicate (Nobjects c) 0
            \<and> clusterSizes s2 = [int (Nobjects c)]"
    if "int (Niterations s) mod k = 0 \<and> int (Niterations s) < n0"
  proof -
    from that cz have c: "crem (int (Niterations s1)) (NiterationsWithSameClustering args) = 0"
      and l: "int (Niterations s1) < NinitialIterationsWithoutClustering args"
      by (simp_all add: k_def n0_def f1)
    from that ix have "clusterIndices s = replicate (Nobjects c) 0" by (simp add: n0_def)
    then show ?thesis
      using bc by (simp add: updateClustering_cases(1) [OF c l] f1 N map_replicate_const)
  qed
  have C: "Nclusters s2 = Nclusters s \<and> clusterIndices s2 = clusterIndices s
            \<and> clusterSizes s2 = clusterSizes s"
    if "int (Niterations s) mod k \<noteq> 0"
  proof -
    from that cz have c: "crem (int (Niterations s1)) (NiterationsWithSameClustering args) \<noteq> 0"
      by (simp add: k_def f1)
    show ?thesis using bc by (simp add: updateClustering_cases(2) [OF c] f1)
  qed
  have D: "(Nclusters s2, clusterIndices s2, clusterSizes s2)
              = fst (cluster env (nestedSample s) (clusterIndices s) (clusterSizes s)
                       (printOnTheScreen s) (world s))"
    if "int (Niterations s) mod k = 0 \<and> n0 \<le> int (Niterations s)"
  proof -
    from that cz have c: "crem (int (Niterations s1)) (NiterationsWithSameClustering args) = 0"
      and l: "\<not> int (Niterations s1) < NinitialIterationsWithoutClustering args"
      by (simp_all add: k_def n0_def f1)
    from updateClustering_cases(3) [OF c l, of env] bc
    show ?thesis by (simp add: f1 prod_eq_iff)
  qed
  from A B C D show ?thesis unfolding k_def n0_def by blast
qed

theorem clustering_cadence_witness:
  "(\<exists>i j s2. beforeDraw exampleEnvironment exampleArguments exampleStart = Some (Inr (i, j, s2))
       \<and> Nclusters s2 = 1 \<and> clusterIndices s2 = [0] \<and> clusterSizes s2 = [1])
   \<and> (\<exists>s i j s2. loopHead exampleEnvironment
                    (exampleArguments\<lparr> NiterationsWithSameClustering := 2 \<rparr>) exampleStart s
       \<and> Niterations s = 1
       \<and> beforeDraw exampleEnvironment
            (exampleArguments\<lparr> NiterationsWithSameClustering := 2 \<rparr>) s = Some (Inr (i, j, s2))
       \<and> Nclusters s2 = Nclusters s \<and> clusterIndices s2 = clusterIndices s
       \<and> clusterSizes s2 = clusterSizes s
       \<and> iteration (exampleEnvironment\<lparr> cluster := (\<lambda>sample indices sizes print w. ((7, [], []), w)) \<rparr>)
            (exampleArguments\<lparr> NiterationsWithSameClustering := 2 \<rparr>) s
          = iteration exampleEnvironment
              (exampleArguments\<lparr> NiterationsWithSameClustering := 2 \<rparr>) s)
   \<and> (\<exists>s i j s2. loopHead exampleEnvironment exampleArguments exampleStart s
       \<and> Niterations s = 1
       \<and> beforeDraw exampleEnvironment exampleArguments s = Some (Inr (i, j, s2))
       \<and> (Nclusters s2, clusterIndices s2, clusterSizes s2)
           = fst (cluster exampleEnvironment (nestedSample s) (clusterIndices s)
                    (clusterSizes s) (printOnTheScreen s) (world s)))"
proof -
  define A2 where "A2 = exampleArguments\<lparr> NiterationsWithSameClustering := 2 \<rparr>"
  have k: "NiterationsWithSameClustering exampleArguments \<noteq> 0"
    "NiterationsWithSameClustering A2 \<noteq> 0"
    by (simp_all add: exampleArguments_def A2_def)
  have first: "loopHead exampleEnvironment args
                 (initialise exampleEnvironment (NestedSampler exampleEnvironment False 1 0))
                 exampleStart" for args
    unfolding exampleStart_def by (rule loopHead.first)
  \<comment> \<open>the first iteration: the single cluster is forced\<close>
  note b0 = example_step_any(1) [OF exampleStart_live(1,2) k(1)]
  from clustering_cadence [OF first b0, of "(\<lambda>sample indices sizes print w. ((7, [], []), w))"]
  have P1: "\<exists>i j s2. beforeDraw exampleEnvironment exampleArguments exampleStart
                      = Some (Inr (i, j, s2))
       \<and> Nclusters s2 = 1 \<and> clusterIndices s2 = [0] \<and> clusterSizes s2 = [1]"
    using b0 by (simp add: exampleStart_live exampleArguments_def NestedSampler_def)
  \<comment> \<open>the second iteration with a new clustering every two iterations: nothing changes\<close>
  from example_step_any(2) [OF exampleStart_live(1,2) k(2)] obtain t1 where
    i2: "iteration exampleEnvironment A2 exampleStart = Some (Inr (False, t1))"
    by (auto simp: exampleStart_live A2_def exampleArguments_def)
  have c2: "nestedSamplingShouldContinue t1"
    using iteration_continue [OF i2] by (simp add: A2_def exampleArguments_def)
  have h2: "loopHead exampleEnvironment A2 exampleStart t1"
    by (rule loopHead.later [OF loopHead.first i2 c2])
  have l2: "Nobjects t1 = 1" "logLikelihood t1 \<noteq> []" "Niterations t1 = 1"
    using iteration_live [OF i2] exampleStart_live by auto
  note b2 = example_step_any(1) [OF l2(1,2) k(2)]
  from clustering_cadence [OF h2 [unfolded exampleStart_def] b2, of "(\<lambda>sample indices sizes print w. ((7, [], []), w))"]
  have P2: "\<exists>s i j s2. loopHead exampleEnvironment A2 exampleStart s
       \<and> Niterations s = 1
       \<and> beforeDraw exampleEnvironment A2 s = Some (Inr (i, j, s2))
       \<and> Nclusters s2 = Nclusters s \<and> clusterIndices s2 = clusterIndices s
       \<and> clusterSizes s2 = clusterSizes s
       \<and> iteration (exampleEnvironment\<lparr> cluster := (\<lambda>sample indices sizes print w. ((7, [], []), w)) \<rparr>) A2 s
          = iteration exampleEnvironment A2 s"
    using b2 h2 l2(3) by (intro exI [of _ t1]) (simp add: A2_def exampleArguments_def)
  \<comment> \<open>the second iteration with a new clustering every iteration: the clusterer runs\<close>
  from example_step_any(2) [OF exampleStart_live(1,2) k(1)] obtain s1 where
    i1: "iteration exampleEnvironment exampleArguments exampleStart = Some (Inr (False, s1))"
    by (auto simp: exampleStart_live exampleArguments_def)
  have h1: "loopHead exampleEnvironment exampleArguments exampleStart s1"
    by (rule loopHead.later [OF loopHead.first i1 example_continue [OF i1]])
  have l1: "Nobjects s1 = 1" "logLikelihood s1 \<noteq> []" "Niterations s1 = 1"
    using iteration_live [OF i1] exampleStart_live by auto
  note b1 = example_step_any(1) [OF l1(1,2) k(1)]
  from clustering_cadence [OF h1 [unfolded exampleStart_def] b1, of "(\<lambda>sample indices sizes print w. ((7, [], []), w))"]
  have P3: "\<exists>s i j s2. loopHead exampleEnvironment exampleArguments exampleStart s
       \<and> Niterations s = 1
       \<and> beforeDraw exampleEnvironment exampleArguments s = Some (Inr (i, j, s2))
       \<and> (Nclusters s2, clusterIndices s2, clusterSizes s2)
           = fst (cluster exampleEnvironment (nestedSample s) (clusterIndices s)
                    (clusterSizes s) (printOnTheScreen s) (world s))"
    using b1 h1 l1(3) by (intro exI [of _ s1]) (simp add: exampleArguments_def)
  from P1 P2 P3 show ?thesis unfolding A2_def by (intro conjI)
qed

section \<open>Parameter estimation\<close>



























end
